theory Spec2Isabelle
  imports Complex_Main
begin

section \<open>Python values\<close>

text \<open>
  The server (\<^verbatim>\<open>server.py\<close>) receives parsed JSON from its backends and formats it as
  text. A parsed body is any JSON value, so the model keeps all of them, and every
  operation that Python can refuse on some of them returns an error value instead.

  Strings are byte lists holding UTF-8, so the non-ASCII literals of the source
  (the degree sign, the alert symbols) are written as their bytes.
\<close>

datatype py_error =
  AttributeError | TypeError | IndexError | KeyError | ValueError | OverflowError

text \<open>
  A Python float: a finite value (kept as the exact rational it denotes), negative zero,
  the infinities and NaN (\<^verbatim>\<open>json.loads\<close> accepts \<^verbatim>\<open>NaN\<close> and \<^verbatim>\<open>Infinity\<close>).
\<close>

datatype pyfloat = Finite rat | NegZero | PosInf | NegInf | NaN

datatype json =
    JNull
  | JBool bool
  | JInt int
  | JFloat pyfloat
  | JStr string
  | JList "json list"
  | JObj "(string \<times> json) list"

text \<open>
  What the model does not compute is taken as a parameter: the digits Python prints for a
  float, the \<^verbatim>\<open>repr\<close> of a list or dict, and the conversion of an integer beyond
  \<open>2^53\<close> to a float. Every theorem below holds for all choices of these.
\<close>

record pyrt =
  float_str :: "pyfloat \<Rightarrow> string"
  float_fixed4 :: "pyfloat \<Rightarrow> string"
  container_str :: "json \<Rightarrow> string"
  bigint_fixed4 :: "int \<Rightarrow> py_error + string"

fun rbind :: "py_error + 'a \<Rightarrow> ('a \<Rightarrow> py_error + 'b) \<Rightarrow> py_error + 'b" where
  "rbind (Inl e) f = Inl e"
| "rbind (Inr v) f = f v"

text \<open>An f-string evaluates its pieces left to right; the first exception leaves it.\<close>

fun fstring :: "(py_error + string) list \<Rightarrow> py_error + string" where
  "fstring [] = Inr []"
| "fstring (p # ps) = rbind p (\<lambda>s. rbind (fstring ps) (\<lambda>t. Inr (s @ t)))"

definition nl :: string where
  "nl = [CHR 0x0A]"

definition deg :: string where
  "deg = [CHR 0xC2, CHR 0xB0]"

fun join :: "string \<Rightarrow> string list \<Rightarrow> string" where
  "join sep [] = []"
| "join sep [x] = x"
| "join sep (x # y # ys) = x @ sep @ join sep (y # ys)"

subsection \<open>Truth value, length, indexing, iteration\<close>

fun float_truthy :: "pyfloat \<Rightarrow> bool" where
  "float_truthy (Finite q) = (q \<noteq> 0)"
| "float_truthy NegZero = False"
| "float_truthy PosInf = True"
| "float_truthy NegInf = True"
| "float_truthy NaN = True"

fun truthy :: "json \<Rightarrow> bool" where
  "truthy JNull = False"
| "truthy (JBool b) = b"
| "truthy (JInt i) = (i \<noteq> 0)"
| "truthy (JFloat f) = float_truthy f"
| "truthy (JStr s) = (s \<noteq> [])"
| "truthy (JList xs) = (xs \<noteq> [])"
| "truthy (JObj kvs) = (kvs \<noteq> [])"

text \<open>\<^verbatim>\<open>v.get(k, d)\<close>: only a dict has the method.\<close>

fun dict_get :: "json \<Rightarrow> string \<Rightarrow> json \<Rightarrow> py_error + json" where
  "dict_get (JObj kvs) k d = Inr (case map_of kvs k of None \<Rightarrow> d | Some v \<Rightarrow> v)"
| "dict_get _ k d = Inl AttributeError"

text \<open>\<^verbatim>\<open>v[k]\<close> with a string key.\<close>

fun dict_item :: "json \<Rightarrow> string \<Rightarrow> py_error + json" where
  "dict_item (JObj kvs) k = (case map_of kvs k of None \<Rightarrow> Inl KeyError | Some v \<Rightarrow> Inr v)"
| "dict_item _ k = Inl TypeError"

text \<open>The code points of a UTF-8 string: a lead byte with its continuation bytes.\<close>

definition is_cont :: "char \<Rightarrow> bool" where
  "is_cont c = (128 \<le> (of_char c :: nat) \<and> (of_char c :: nat) < 192)"

fun utf8_chars :: "string \<Rightarrow> string list" where
  "utf8_chars [] = []"
| "utf8_chars (c # cs) =
     (case utf8_chars cs of
        [] \<Rightarrow> [[c]]
      | g # gs \<Rightarrow> (if is_cont (hd g) then (c # g) # gs else [c] # g # gs))"

fun py_len :: "json \<Rightarrow> py_error + nat" where
  "py_len (JList xs) = Inr (length xs)"
| "py_len (JStr s) = Inr (length (utf8_chars s))"
| "py_len (JObj kvs) = Inr (length kvs)"
| "py_len _ = Inl TypeError"

text \<open>\<^verbatim>\<open>v[i]\<close> with \<open>i \<ge> 0\<close>. A dict parsed from JSON has string keys only.\<close>

fun py_getitem :: "json \<Rightarrow> nat \<Rightarrow> py_error + json" where
  "py_getitem (JList xs) i = (if i < length xs then Inr (xs ! i) else Inl IndexError)"
| "py_getitem (JStr s) i =
     (if i < length (utf8_chars s) then Inr (JStr (utf8_chars s ! i)) else Inl IndexError)"
| "py_getitem (JObj kvs) i = Inl KeyError"
| "py_getitem _ i = Inl TypeError"

text \<open>\<^verbatim>\<open>for x in v\<close>: the elements of a list, the characters of a string, the keys of a dict.\<close>

fun py_iter :: "json \<Rightarrow> py_error + json list" where
  "py_iter (JList xs) = Inr xs"
| "py_iter (JStr s) = Inr (map JStr (utf8_chars s))"
| "py_iter (JObj kvs) = Inr (map (\<lambda>kv. JStr (fst kv)) kvs)"
| "py_iter _ = Inl TypeError"

subsection \<open>Formatting\<close>

fun str_nat :: "nat \<Rightarrow> string" where
  "str_nat n =
     (if n < 10 then [''0123456789'' ! n]
      else str_nat (n div 10) @ [''0123456789'' ! (n mod 10)])"

declare str_nat.simps [simp del]

definition str_int :: "int \<Rightarrow> string" where
  "str_int i = (if i < 0 then ''-'' @ str_nat (nat (- i)) else str_nat (nat i))"

text \<open>\<^verbatim>\<open>f"{v}"\<close>, that is \<^verbatim>\<open>format(v, '')\<close>.\<close>

fun py_format :: "pyrt \<Rightarrow> json \<Rightarrow> string" where
  "py_format rt JNull = ''None''"
| "py_format rt (JBool b) = (if b then ''True'' else ''False'')"
| "py_format rt (JInt i) = str_int i"
| "py_format rt (JFloat f) = float_str rt f"
| "py_format rt (JStr s) = s"
| "py_format rt (JList xs) = container_str rt (JList xs)"
| "py_format rt (JObj kvs) = container_str rt (JObj kvs)"

text \<open>
  \<^verbatim>\<open>f"{v:.4f}"\<close>. An int (and a bool, which is an int) is converted to a float first:
  exactly up to \<open>2^53\<close>, so the digits are its own, followed by four zeros. None, a
  list and a dict have no such format (TypeError); for a string the format code is
  unknown (ValueError).
\<close>

definition int_fixed4 :: "pyrt \<Rightarrow> int \<Rightarrow> py_error + string" where
  "int_fixed4 rt i =
     (if \<bar>i\<bar> \<le> 2 ^ 53 then Inr (str_int i @ ''.0000'') else bigint_fixed4 rt i)"

fun format_fixed4 :: "pyrt \<Rightarrow> json \<Rightarrow> py_error + string" where
  "format_fixed4 rt (JInt i) = int_fixed4 rt i"
| "format_fixed4 rt (JBool b) = int_fixed4 rt (if b then 1 else 0)"
| "format_fixed4 rt (JFloat f) = Inr (float_fixed4 rt f)"
| "format_fixed4 rt (JStr s) = Inl ValueError"
| "format_fixed4 rt JNull = Inl TypeError"
| "format_fixed4 rt (JList xs) = Inl TypeError"
| "format_fixed4 rt (JObj kvs) = Inl TypeError"

subsection \<open>Case mapping and substring test\<close>





fun starts_with :: "string \<Rightarrow> string \<Rightarrow> bool" where
  "starts_with [] s = True"
| "starts_with (m # ms) [] = False"
| "starts_with (m # ms) (c # cs) = (m = c \<and> starts_with ms cs)"

text \<open>\<^verbatim>\<open>m in s\<close> for strings.\<close>

fun isin :: "string \<Rightarrow> string \<Rightarrow> bool" where
  "isin m [] = (m = [])"
| "isin m (c # cs) = (starts_with m (c # cs) \<or> isin m cs)"

section \<open>The weather code table\<close>

definition WEATHER_CODES :: "(int \<times> string) list" where
  "WEATHER_CODES =
    [(0, ''Clear sky''),
     (1, ''Mainly clear''),
     (2, ''Partly cloudy''),
     (3, ''Overcast''),
     (45, ''Fog''),
     (48, ''Depositing rime fog''),
     (51, ''Light drizzle''),
     (53, ''Moderate drizzle''),
     (55, ''Dense drizzle''),
     (56, ''Light freezing drizzle''),
     (57, ''Dense freezing drizzle''),
     (61, ''Slight rain''),
     (63, ''Moderate rain''),
     (65, ''Heavy rain''),
     (66, ''Light freezing rain''),
     (67, ''Heavy freezing rain''),
     (71, ''Slight snow fall''),
     (73, ''Moderate snow fall''),
     (75, ''Heavy snow fall''),
     (77, ''Snow grains''),
     (80, ''Slight rain showers''),
     (81, ''Moderate rain showers''),
     (82, ''Violent rain showers''),
     (85, ''Slight snow showers''),
     (86, ''Heavy snow showers''),
     (95, ''Thunderstorm''),
     (96, ''Thunderstorm with slight hail''),
     (99, ''Thunderstorm with heavy hail'')]"

text \<open>
  The integer a value is equal to as a dict key, if any: \<^verbatim>\<open>True == 1\<close>,
  \<^verbatim>\<open>3.0 == 3\<close> (with the same hash), a string never.
\<close>

fun float_int :: "pyfloat \<Rightarrow> int option" where
  "float_int (Finite q) = (if q = of_int \<lfloor>q\<rfloor> then Some \<lfloor>q\<rfloor> else None)"
| "float_int NegZero = Some 0"
| "float_int _ = None"

fun int_key :: "json \<Rightarrow> int option" where
  "int_key (JInt i) = Some i"
| "int_key (JBool b) = Some (if b then 1 else 0)"
| "int_key (JFloat f) = float_int f"
| "int_key _ = None"

text \<open>\<^verbatim>\<open>WEATHER_CODES.get(v, 'Unknown')\<close>: a list or a dict is unhashable.\<close>

fun weather_codes_get :: "json \<Rightarrow> py_error + string" where
  "weather_codes_get (JList xs) = Inl TypeError"
| "weather_codes_get (JObj kvs) = Inl TypeError"
| "weather_codes_get v =
     Inr (case int_key v of
            None \<Rightarrow> ''Unknown''
          | Some i \<Rightarrow> (case map_of WEATHER_CODES i of None \<Rightarrow> ''Unknown'' | Some d \<Rightarrow> d))"

text \<open>\<^verbatim>\<open>WEATHER_CODES.get(weather_code, 'Unknown') if weather_code else 'Unknown'\<close>\<close>

definition weather_desc_guarded :: "json \<Rightarrow> py_error + string" where
  "weather_desc_guarded weather_code =
     (if truthy weather_code then weather_codes_get weather_code else Inr ''Unknown'')"

section \<open>The HTTP fetcher\<close>

text \<open>
  What one GET can end in: the three kinds of exception the \<^verbatim>\<open>try\<close> block can raise
  (transport, \<^verbatim>\<open>raise_for_status\<close>, \<^verbatim>\<open>response.json()\<close>), or a parsed body.
  The world answers the \<open>n\<close>-th request for a URL with \<open>net w n url\<close> and records
  every request made.
\<close>

datatype http_outcome = TransportError | StatusError | MalformedBody | Body json

record world =
  net :: "nat \<Rightarrow> string \<Rightarrow> http_outcome"
  calls :: "string list"

definition client_get :: "string \<Rightarrow> world \<Rightarrow> http_outcome \<times> world" where
  "client_get url w = (net w (length (calls w)) url, w\<lparr>calls := calls w @ [url]\<rparr>)"

text \<open>The \<^verbatim>\<open>try\<close> block with \<^verbatim>\<open>except Exception: return None\<close>.\<close>

fun try_json :: "http_outcome \<Rightarrow> json" where
  "try_json (Body j) = j"
| "try_json TransportError = JNull"
| "try_json StatusError = JNull"
| "try_json MalformedBody = JNull"

definition make_openmeteo_request :: "string \<Rightarrow> world \<Rightarrow> json \<times> world" where
  "make_openmeteo_request url w = (let (out, w') = client_get url w in (try_json out, w'))"

definition OPENMETEO_API_BASE :: string where
  "OPENMETEO_API_BASE = ''https://api.open-meteo.com/v1''"

definition GEOCODING_API_BASE :: string where
  "GEOCODING_API_BASE = ''https://geocoding-api.open-meteo.com/v1''"

section \<open>The tools\<close>

text \<open>A field of a snapshot inside an f-string: \<^verbatim>\<open>{current.get(k, 'N/A')}\<close>.\<close>

definition field :: "pyrt \<Rightarrow> json \<Rightarrow> string \<Rightarrow> py_error + string" where
  "field rt current k = rbind (dict_get current k (JStr ''N/A'')) (\<lambda>v. Inr (py_format rt v))"

subsection \<open>get_current_weather\<close>

definition current_weather_url :: "pyrt \<Rightarrow> pyfloat \<Rightarrow> pyfloat \<Rightarrow> string" where
  "current_weather_url rt latitude longitude =
     OPENMETEO_API_BASE @ ''/forecast?latitude='' @ float_str rt latitude
     @ ''&longitude='' @ float_str rt longitude
     @ ''&current=temperature_2m,is_day,showers,cloud_cover,wind_speed_10m,wind_direction_10m,pressure_msl,snowfall,precipitation,relative_humidity_2m,apparent_temperature,rain,weather_code,surface_pressure,wind_gusts_10m''"

definition current_weather_report :: "pyrt \<Rightarrow> json \<Rightarrow> py_error + string" where
  "current_weather_report rt current =
     fstring
      [Inr (''Current Weather:'' @ nl @ ''Temperature: ''), field rt current ''temperature_2m'',
       Inr (deg @ ''C'' @ nl @ ''Feels like: ''), field rt current ''apparent_temperature'',
       Inr (deg @ ''C'' @ nl @ ''Humidity: ''), field rt current ''relative_humidity_2m'',
       Inr (''%'' @ nl @ ''Wind Speed: ''), field rt current ''wind_speed_10m'',
       Inr ('' km/h'' @ nl @ ''Wind Direction: ''), field rt current ''wind_direction_10m'',
       Inr (deg @ nl @ ''Pressure: ''), field rt current ''pressure_msl'',
       Inr ('' hPa'' @ nl @ ''Cloud Cover: ''), field rt current ''cloud_cover'',
       Inr (''%'' @ nl @ ''Precipitation: ''), field rt current ''precipitation'',
       Inr ('' mm'' @ nl @ ''Rain: ''), field rt current ''rain'',
       Inr ('' mm'' @ nl @ ''Snow: ''), field rt current ''snowfall'',
       Inr ('' mm'' @ nl @ ''Weather: ''),
       rbind (dict_get current ''weather_code'' JNull) weather_codes_get]"

definition get_current_weather ::
  "pyrt \<Rightarrow> pyfloat \<Rightarrow> pyfloat \<Rightarrow> world \<Rightarrow> (py_error + string) \<times> world" where
  "get_current_weather rt latitude longitude w =
     (let (data, w') = make_openmeteo_request (current_weather_url rt latitude longitude) w
      in if \<not> truthy data
         then (Inr ''Unable to fetch current weather data for this location.'', w')
         else (rbind (dict_get data ''current'' (JObj [])) (current_weather_report rt), w'))"

fun sequence_res :: "(py_error + 'a) list \<Rightarrow> py_error + 'a list" where
  "sequence_res [] = Inr []"
| "sequence_res (r # rs) = rbind r (\<lambda>x. rbind (sequence_res rs) (\<lambda>xs. Inr (x # xs)))"

subsection \<open>search_locations\<close>

definition search_locations_url :: "string \<Rightarrow> string" where
  "search_locations_url query =
     GEOCODING_API_BASE @ ''/search?name='' @ query @ ''&count=5&language=en&format=json''"

text \<open>The body of the loop over the matches: one line per match.\<close>

definition location_str :: "pyrt \<Rightarrow> json \<Rightarrow> py_error + string" where
  "location_str rt result =
     rbind (dict_get result ''name'' (JStr ''Unknown'')) (\<lambda>name.
     rbind (dict_get result ''country'' (JStr ''Unknown'')) (\<lambda>country.
     rbind (dict_get result ''admin1'' (JStr [])) (\<lambda>admin1.
     rbind (dict_get result ''latitude'' (JInt 0)) (\<lambda>lat.
     rbind (dict_get result ''longitude'' (JInt 0)) (\<lambda>lon.
       fstring
        [Inr (py_format rt name),
         Inr (if truthy admin1 then '', '' @ py_format rt admin1 else []),
         Inr ('', '' @ py_format rt country @ '' (Lat: ''), format_fixed4 rt lat,
         Inr '', Lon: '', format_fixed4 rt lon, Inr '')''])))))"

definition no_locations :: "string \<Rightarrow> string" where
  "no_locations query = ''No locations found for '' @ [CHR 0x27] @ query @ [CHR 0x27]"

definition search_locations ::
  "pyrt \<Rightarrow> string \<Rightarrow> world \<Rightarrow> (py_error + string) \<times> world" where
  "search_locations rt query w =
     (let (data, w') = make_openmeteo_request (search_locations_url query) w
      in if \<not> truthy data then (Inr (no_locations query), w')
         else
          (rbind (dict_get data ''results'' JNull) (\<lambda>results.
             if \<not> truthy results then Inr (no_locations query)
             else
               rbind (dict_item data ''results'') (\<lambda>rs.
               rbind (py_iter rs) (\<lambda>matches.
               rbind (sequence_res (map (location_str rt) matches)) (\<lambda>locations.
                 Inr (''Found locations:'' @ nl @ join nl locations))))), w'))"

subsection \<open>get_weather_forecast\<close>

definition clamp_days :: "int \<Rightarrow> int" where
  "clamp_days days = max 1 (min days 16)"

definition forecast_url :: "pyrt \<Rightarrow> pyfloat \<Rightarrow> pyfloat \<Rightarrow> int \<Rightarrow> string" where
  "forecast_url rt latitude longitude days =
     OPENMETEO_API_BASE @ ''/forecast?latitude='' @ float_str rt latitude
     @ ''&longitude='' @ float_str rt longitude
     @ ''&daily=weather_code,temperature_2m_max,temperature_2m_min,precipitation_sum,wind_speed_10m_max,wind_direction_10m_dominant&forecast_days=''
     @ str_int days @ ''&timezone=auto''"

text \<open>
  \<^verbatim>\<open>daily.get(k, [])[i] if i < len(daily.get(k, [])) else dflt\<close>: the condition is
  evaluated first.
\<close>

definition daily_at :: "json \<Rightarrow> string \<Rightarrow> nat \<Rightarrow> json \<Rightarrow> py_error + json" where
  "daily_at daily k i dflt =
     rbind (dict_get daily k (JList [])) (\<lambda>xs.
     rbind (py_len xs) (\<lambda>n.
       if i < n then rbind (dict_get daily k (JList [])) (\<lambda>ys. py_getitem ys i)
       else Inr dflt))"

definition forecast_line :: "pyrt \<Rightarrow> json \<Rightarrow> json \<Rightarrow> nat \<Rightarrow> py_error + string" where
  "forecast_line rt daily dates i =
     rbind (py_getitem dates i) (\<lambda>date.
     rbind (daily_at daily ''weather_code'' i JNull) (\<lambda>weather_code.
     rbind (daily_at daily ''temperature_2m_max'' i (JStr ''N/A'')) (\<lambda>temp_max.
     rbind (daily_at daily ''temperature_2m_min'' i (JStr ''N/A'')) (\<lambda>temp_min.
     rbind (daily_at daily ''precipitation_sum'' i (JStr ''N/A'')) (\<lambda>precipitation.
     rbind (daily_at daily ''wind_speed_10m_max'' i (JStr ''N/A'')) (\<lambda>wind_speed.
     rbind (weather_desc_guarded weather_code) (\<lambda>weather_desc.
       Inr (py_format rt date @ '': '' @ weather_desc @ '', '' @ py_format rt temp_min
            @ deg @ ''C - '' @ py_format rt temp_max @ deg @ ''C, Rain: ''
            @ py_format rt precipitation @ ''mm, Wind: '' @ py_format rt wind_speed
            @ ''km/h''))))))))"

definition forecast_report :: "pyrt \<Rightarrow> int \<Rightarrow> json \<Rightarrow> py_error + string" where
  "forecast_report rt days data =
     rbind (dict_get data ''daily'' (JObj [])) (\<lambda>daily.
     rbind (dict_get daily ''time'' (JList [])) (\<lambda>dates.
     rbind (py_len dates) (\<lambda>n.
     rbind (sequence_res (map (forecast_line rt daily dates) [0..<n])) (\<lambda>day_lines.
       Inr (join nl ((''Weather Forecast for '' @ str_int days @ '' days:'') # day_lines))))))"

definition get_weather_forecast ::
  "pyrt \<Rightarrow> pyfloat \<Rightarrow> pyfloat \<Rightarrow> int \<Rightarrow> world \<Rightarrow> (py_error + string) \<times> world" where
  "get_weather_forecast rt latitude longitude days0 w =
     (let days = clamp_days days0;
          (data, w') = make_openmeteo_request (forecast_url rt latitude longitude days) w
      in if \<not> truthy data
         then (Inr ''Unable to fetch forecast data for this location.'', w')
         else (forecast_report rt days data, w'))"

subsection \<open>get_weather_alerts\<close>

text \<open>
  \<^verbatim>\<open>v >= k\<close> and \<^verbatim>\<open>v <= k\<close> against an integer constant: defined on numbers (a bool is
  one), a TypeError otherwise.
\<close>

fun float_ge :: "pyfloat \<Rightarrow> int \<Rightarrow> bool" where
  "float_ge (Finite q) k = (of_int k \<le> q)"
| "float_ge NegZero k = (k \<le> 0)"
| "float_ge PosInf k = True"
| "float_ge NegInf k = False"
| "float_ge NaN k = False"

fun float_le :: "pyfloat \<Rightarrow> int \<Rightarrow> bool" where
  "float_le (Finite q) k = (q \<le> of_int k)"
| "float_le NegZero k = (0 \<le> k)"
| "float_le PosInf k = False"
| "float_le NegInf k = True"
| "float_le NaN k = False"

fun py_ge :: "json \<Rightarrow> int \<Rightarrow> py_error + bool" where
  "py_ge (JInt i) k = Inr (k \<le> i)"
| "py_ge (JBool b) k = Inr (k \<le> (if b then 1 else 0))"
| "py_ge (JFloat f) k = Inr (float_ge f k)"
| "py_ge _ k = Inl TypeError"

fun py_le :: "json \<Rightarrow> int \<Rightarrow> py_error + bool" where
  "py_le (JInt i) k = Inr (i \<le> k)"
| "py_le (JBool b) k = Inr ((if b then 1 else 0) \<le> k)"
| "py_le (JFloat f) k = Inr (float_le f k)"
| "py_le _ k = Inl TypeError"

definition HEAT_WARNING :: string where
  "HEAT_WARNING = [CHR 0xF0, CHR 0x9F, CHR 0x94, CHR 0xA5]
     @ '' HEAT WARNING: Extreme temperature detected''"

definition COLD_WARNING :: string where
  "COLD_WARNING = [CHR 0xF0, CHR 0x9F, CHR 0xA5, CHR 0xB6]
     @ '' COLD WARNING: Extreme cold temperature detected''"

definition WIND_WARNING :: string where
  "WIND_WARNING = [CHR 0xF0, CHR 0x9F, CHR 0x92, CHR 0xA8]
     @ '' WIND WARNING: High wind speeds detected''"

definition PRECIPITATION_WARNING :: string where
  "PRECIPITATION_WARNING = [CHR 0xF0, CHR 0x9F, CHR 0x8C, CHR 0xA7, CHR 0xEF, CHR 0xB8, CHR 0x8F]
     @ '' PRECIPITATION WARNING: Heavy precipitation detected''"

definition THUNDERSTORM_WARNING :: string where
  "THUNDERSTORM_WARNING = [CHR 0xE2, CHR 0x9B, CHR 0x88, CHR 0xEF, CHR 0xB8, CHR 0x8F]
     @ '' THUNDERSTORM WARNING: Thunderstorm conditions detected''"

definition NO_ALERTS :: string where
  "NO_ALERTS = [CHR 0xE2, CHR 0x9C, CHR 0x85]
     @ '' No weather alerts or warnings for this location.''"

definition alerts_url :: "pyrt \<Rightarrow> pyfloat \<Rightarrow> pyfloat \<Rightarrow> string" where
  "alerts_url rt latitude longitude =
     OPENMETEO_API_BASE @ ''/forecast?latitude='' @ float_str rt latitude
     @ ''&longitude='' @ float_str rt longitude
     @ ''&current=temperature_2m,wind_speed_10m,precipitation,weather_code&hourly=temperature_2m,precipitation,wind_speed_10m&forecast_days=2&timezone=auto''"

definition temp_alerts :: "json \<Rightarrow> py_error + string list" where
  "temp_alerts temp =
     (if temp \<noteq> JNull
      then rbind (py_ge temp 35) (\<lambda>hot.
             if hot then Inr [HEAT_WARNING]
             else rbind (py_le temp (- 20)) (\<lambda>cold.
                    if cold then Inr [COLD_WARNING] else Inr []))
      else Inr [])"

definition threshold_alert :: "json \<Rightarrow> int \<Rightarrow> string \<Rightarrow> py_error + string list" where
  "threshold_alert v k line =
     (if v \<noteq> JNull then rbind (py_ge v k) (\<lambda>b. if b then Inr [line] else Inr [])
      else Inr [])"

text \<open>\<^verbatim>\<open>weather_code in [95, 96, 99]\<close> compares with \<^verbatim>\<open>==\<close>, which never raises.\<close>

definition storm_alerts :: "json \<Rightarrow> string list" where
  "storm_alerts weather_code =
     (if int_key weather_code \<in> {Some 95, Some 96, Some 99} then [THUNDERSTORM_WARNING]
      else [])"

definition current_alerts :: "json \<Rightarrow> py_error + string list" where
  "current_alerts current =
     rbind (dict_get current ''temperature_2m'' JNull) (\<lambda>temp.
     rbind (dict_get current ''wind_speed_10m'' JNull) (\<lambda>wind_speed.
     rbind (dict_get current ''precipitation'' JNull) (\<lambda>precipitation.
     rbind (dict_get current ''weather_code'' JNull) (\<lambda>weather_code.
     rbind (temp_alerts temp) (\<lambda>a1.
     rbind (threshold_alert wind_speed 60 WIND_WARNING) (\<lambda>a2.
     rbind (threshold_alert precipitation 20 PRECIPITATION_WARNING) (\<lambda>a3.
       Inr (a1 @ a2 @ a3 @ storm_alerts weather_code))))))))"

definition alerts_text :: "string list \<Rightarrow> string" where
  "alerts_text alerts =
     (if alerts = [] then NO_ALERTS else ''Weather Alerts:'' @ nl @ join nl alerts)"

definition get_weather_alerts ::
  "pyrt \<Rightarrow> pyfloat \<Rightarrow> pyfloat \<Rightarrow> world \<Rightarrow> (py_error + string) \<times> world" where
  "get_weather_alerts rt latitude longitude w =
     (let (data, w') = make_openmeteo_request (alerts_url rt latitude longitude) w
      in if \<not> truthy data
         then (Inr ''Unable to fetch weather alert data for this location.'', w')
         else (rbind (dict_get data ''current'' (JObj [])) (\<lambda>current.
               rbind (current_alerts current) (\<lambda>alerts. Inr (alerts_text alerts))), w'))"

subsection \<open>get_weather_by_city\<close>

definition geocoding_url :: "string \<Rightarrow> string" where
  "geocoding_url city_name =
     GEOCODING_API_BASE @ ''/search?name='' @ city_name @ ''&count=1&language=en&format=json''"

definition city_weather_url :: "pyrt \<Rightarrow> json \<Rightarrow> json \<Rightarrow> string" where
  "city_weather_url rt latitude longitude =
     OPENMETEO_API_BASE @ ''/forecast?latitude='' @ py_format rt latitude
     @ ''&longitude='' @ py_format rt longitude
     @ ''&current=temperature_2m,is_day,cloud_cover,wind_speed_10m,wind_direction_10m,pressure_msl,precipitation,relative_humidity_2m,apparent_temperature,weather_code''"

definition city_not_found :: "string \<Rightarrow> string" where
  "city_not_found city_name =
     ''City '' @ [CHR 0x27] @ city_name @ [CHR 0x27]
     @ '' not found. Please check the spelling and try again.''"

definition city_weather_report :: "pyrt \<Rightarrow> json \<Rightarrow> json \<Rightarrow> json \<Rightarrow> py_error + string" where
  "city_weather_report rt name country weather_data =
     rbind (dict_get weather_data ''current'' (JObj [])) (\<lambda>current.
     rbind (dict_get current ''weather_code'' JNull) (\<lambda>weather_code.
     rbind (weather_desc_guarded weather_code) (\<lambda>weather_desc.
       fstring
        [Inr (''Weather in '' @ py_format rt name @ '', '' @ py_format rt country @ '':'' @ nl
              @ ''Weather: '' @ weather_desc @ nl @ ''Temperature: ''),
         field rt current ''temperature_2m'',
         Inr (deg @ ''C'' @ nl @ ''Feels like: ''), field rt current ''apparent_temperature'',
         Inr (deg @ ''C'' @ nl @ ''Humidity: ''), field rt current ''relative_humidity_2m'',
         Inr (''%'' @ nl @ ''Wind Speed: ''), field rt current ''wind_speed_10m'',
         Inr ('' km/h'' @ nl @ ''Wind Direction: ''), field rt current ''wind_direction_10m'',
         Inr (deg @ nl @ ''Pressure: ''), field rt current ''pressure_msl'',
         Inr ('' hPa'' @ nl @ ''Cloud Cover: ''), field rt current ''cloud_cover'',
         Inr (''%'' @ nl @ ''Precipitation: ''), field rt current ''precipitation'',
         Inr '' mm''])))"

text \<open>
  The part after the geocoding answer is known to hold a truthy \<^verbatim>\<open>results\<close>: the
  first match, its coordinates, the second request, the report.
\<close>

definition city_weather ::
  "pyrt \<Rightarrow> string \<Rightarrow> json \<Rightarrow> world \<Rightarrow> (py_error + string) \<times> world" where
  "city_weather rt city_name location w =
     (case dict_get location ''latitude'' JNull of
        Inl e \<Rightarrow> (Inl e, w)
      | Inr latitude \<Rightarrow>
         (case dict_get location ''longitude'' JNull of
            Inl e \<Rightarrow> (Inl e, w)
          | Inr longitude \<Rightarrow>
             (case dict_get location ''name'' JNull of
                Inl e \<Rightarrow> (Inl e, w)
              | Inr name \<Rightarrow>
                 (case dict_get location ''country'' JNull of
                    Inl e \<Rightarrow> (Inl e, w)
                  | Inr country \<Rightarrow>
                     if latitude = JNull \<or> longitude = JNull
                     then (Inr (''Could not get coordinates for '' @ [CHR 0x27] @ city_name
                                @ [CHR 0x27]), w)
                     else
                      (let (weather_data, w') =
                             make_openmeteo_request (city_weather_url rt latitude longitude) w
                       in if \<not> truthy weather_data
                          then (Inr (''Unable to fetch weather data for '' @ py_format rt name
                                     @ '', '' @ py_format rt country @ ''.''), w')
                          else (city_weather_report rt name country weather_data, w'))))))"

definition get_weather_by_city ::
  "pyrt \<Rightarrow> string \<Rightarrow> world \<Rightarrow> (py_error + string) \<times> world" where
  "get_weather_by_city rt city_name w =
     (let (location_data, w') = make_openmeteo_request (geocoding_url city_name) w
      in if \<not> truthy location_data then (Inr (city_not_found city_name), w')
         else
          (case dict_get location_data ''results'' JNull of
             Inl e \<Rightarrow> (Inl e, w')
           | Inr results \<Rightarrow>
              if \<not> truthy results then (Inr (city_not_found city_name), w')
              else
               (case rbind (dict_item location_data ''results'') (\<lambda>rs. py_getitem rs 0) of
                  Inl e \<Rightarrow> (Inl e, w')
                | Inr location \<Rightarrow> city_weather rt city_name location w')))"

subsection \<open>compare_weather_cities\<close>






subsection \<open>get_historical_weather\<close>

text \<open>
  \<^verbatim>\<open>datetime.strptime(date, '%Y-%m-%d')\<close>, after CPython's \<^verbatim>\<open>_strptime.py\<close>. The
  format becomes the regular expression
  \<^verbatim>\<open>(?P<Y>\d\d\d\d)-(?P<m>1[0-2]|0[1-9]|[1-9])-(?P<d>3[0-1]|[1-2]\d|0[1-9]|[1-9]| [1-9])\<close>,
  matched at the start of the string with backtracking over the alternatives in their
  order; text left after the match, no match, or a year, month and day that
  \<^verbatim>\<open>datetime.date\<close> refuses (year 0, a day the month does not have) raise ValueError.
  Digits are the ASCII digits here (Python's \<^verbatim>\<open>\d\<close> also takes the decimal digits of
  other scripts).
\<close>

type_synonym date = "nat \<times> nat \<times> nat"

definition is_digit :: "char \<Rightarrow> bool" where
  "is_digit c = (c \<in> set ''0123456789'')"

definition digit_val :: "char \<Rightarrow> nat" where
  "digit_val c = (of_char c :: nat) - 48"

definition year_alternatives :: "string \<Rightarrow> (nat \<times> string) list" where
  "year_alternatives s =
     (case s of
        a # b # c # d # r \<Rightarrow>
          if is_digit a \<and> is_digit b \<and> is_digit c \<and> is_digit d
          then [(1000 * digit_val a + 100 * digit_val b + 10 * digit_val c + digit_val d, r)]
          else []
      | _ \<Rightarrow> [])"

definition two_chars :: "string \<Rightarrow> string \<Rightarrow> nat \<Rightarrow> string \<Rightarrow> (nat \<times> string) list" where
  "two_chars firsts seconds tens s =
     (case s of
        a # b # r \<Rightarrow> if a \<in> set firsts \<and> b \<in> set seconds
                     then [(tens * digit_val a + digit_val b, r)] else []
      | _ \<Rightarrow> [])"

definition one_char :: "string \<Rightarrow> string \<Rightarrow> (nat \<times> string) list" where
  "one_char firsts s =
     (case s of a # r \<Rightarrow> if a \<in> set firsts then [(digit_val a, r)] else [] | _ \<Rightarrow> [])"

definition month_alternatives :: "string \<Rightarrow> (nat \<times> string) list" where
  "month_alternatives s =
     two_chars ''1'' ''012'' 10 s @ two_chars ''0'' ''123456789'' 10 s @ one_char ''123456789'' s"

definition day_alternatives :: "string \<Rightarrow> (nat \<times> string) list" where
  "day_alternatives s =
     two_chars ''3'' ''01'' 10 s @ two_chars ''12'' ''0123456789'' 10 s
     @ two_chars ''0'' ''123456789'' 10 s @ one_char ''123456789'' s
     @ two_chars '' '' ''123456789'' 0 s"

definition dash :: "string \<Rightarrow> string list" where
  "dash s = (case s of c # r \<Rightarrow> if c = CHR ''-'' then [r] else [] | _ \<Rightarrow> [])"

text \<open>All ways the expression matches a prefix, in the order the matcher tries them.\<close>

definition ymd_matches :: "string \<Rightarrow> (date \<times> string) list" where
  "ymd_matches s =
     concat (map (\<lambda>(y, r1).
       concat (map (\<lambda>r2.
         concat (map (\<lambda>(m, r3).
           concat (map (\<lambda>r4.
             map (\<lambda>(d, r5). ((y, m, d), r5)) (day_alternatives r4))
           (dash r3)))
         (month_alternatives r2)))
       (dash r1)))
     (year_alternatives s))"

definition leap_year :: "nat \<Rightarrow> bool" where
  "leap_year y = (y mod 4 = 0 \<and> (y mod 100 \<noteq> 0 \<or> y mod 400 = 0))"

definition days_in_month :: "nat \<Rightarrow> nat \<Rightarrow> nat" where
  "days_in_month y m =
     (if m = 2 then (if leap_year y then 29 else 28)
      else if m \<in> {4, 6, 9, 11} then 30 else 31)"

definition valid_date :: "date \<Rightarrow> bool" where
  "valid_date dt =
     (case dt of (y, m, d) \<Rightarrow>
        1 \<le> y \<and> y \<le> 9999 \<and> 1 \<le> m \<and> m \<le> 12 \<and> 1 \<le> d \<and> d \<le> days_in_month y m)"

definition strptime_ymd :: "string \<Rightarrow> py_error + date" where
  "strptime_ymd s =
     (case ymd_matches s of
        [] \<Rightarrow> Inl ValueError
      | (dt, rest) # _ \<Rightarrow>
          if rest \<noteq> [] then Inl ValueError
          else if valid_date dt then Inr dt else Inl ValueError)"

text \<open>\<^verbatim>\<open>request_date >= today\<close> on dates.\<close>

definition date_ge :: "date \<Rightarrow> date \<Rightarrow> bool" where
  "date_ge a b =
     (case a of (y1, m1, d1) \<Rightarrow> case b of (y2, m2, d2) \<Rightarrow>
        y2 < y1 \<or> (y1 = y2 \<and> (m2 < m1 \<or> (m1 = m2 \<and> d2 \<le> d1))))"

definition archive_url :: "pyrt \<Rightarrow> pyfloat \<Rightarrow> pyfloat \<Rightarrow> string \<Rightarrow> string" where
  "archive_url rt latitude longitude date =
     ''https://archive-api.open-meteo.com/v1/archive?latitude='' @ float_str rt latitude
     @ ''&longitude='' @ float_str rt longitude @ ''&start_date='' @ date
     @ ''&end_date='' @ date
     @ ''&daily=weather_code,temperature_2m_max,temperature_2m_min,precipitation_sum,wind_speed_10m_max&timezone=auto''"

text \<open>\<^verbatim>\<open>daily.get(k, [dflt])[0]\<close>\<close>

definition first_of :: "json \<Rightarrow> string \<Rightarrow> json \<Rightarrow> py_error + json" where
  "first_of daily k dflt = rbind (dict_get daily k (JList [dflt])) (\<lambda>xs. py_getitem xs 0)"

definition historical_report :: "pyrt \<Rightarrow> string \<Rightarrow> json \<Rightarrow> py_error + string" where
  "historical_report rt date data =
     rbind (dict_get data ''daily'' (JObj [])) (\<lambda>daily.
     rbind (dict_get daily ''time'' JNull) (\<lambda>times.
       if \<not> truthy times then Inr (''No historical data available for '' @ date @ ''.'')
       else
         rbind (first_of daily ''weather_code'' JNull) (\<lambda>weather_code.
         rbind (first_of daily ''temperature_2m_max'' (JStr ''N/A'')) (\<lambda>temp_max.
         rbind (first_of daily ''temperature_2m_min'' (JStr ''N/A'')) (\<lambda>temp_min.
         rbind (first_of daily ''precipitation_sum'' (JStr ''N/A'')) (\<lambda>precipitation.
         rbind (first_of daily ''wind_speed_10m_max'' (JStr ''N/A'')) (\<lambda>wind_speed.
         rbind (weather_desc_guarded weather_code) (\<lambda>weather_desc.
           Inr (''Historical Weather for '' @ date @ '':'' @ nl
                @ ''Weather: '' @ weather_desc @ nl
                @ ''Temperature: '' @ py_format rt temp_min @ deg @ ''C - ''
                @ py_format rt temp_max @ deg @ ''C'' @ nl
                @ ''Precipitation: '' @ py_format rt precipitation @ '' mm'' @ nl
                @ ''Max Wind Speed: '' @ py_format rt wind_speed @ '' km/h'')))))))))"

text \<open>\<open>today\<close> is \<^verbatim>\<open>datetime.now().date()\<close>, read from the clock.\<close>

definition get_historical_weather ::
  "pyrt \<Rightarrow> date \<Rightarrow> pyfloat \<Rightarrow> pyfloat \<Rightarrow> string \<Rightarrow> world \<Rightarrow> (py_error + string) \<times> world" where
  "get_historical_weather rt today latitude longitude date w =
     (case strptime_ymd date of
        Inl ValueError \<Rightarrow> (Inr ''Invalid date format. Please use YYYY-MM-DD format.'', w)
      | Inl e \<Rightarrow> (Inl e, w)
      | Inr request_date \<Rightarrow>
          if date_ge request_date today
          then (Inr ''Historical weather data is only available for past dates.'', w)
          else
           (let (data, w') = make_openmeteo_request (archive_url rt latitude longitude date) w
            in if \<not> truthy data
               then (Inr (''Unable to fetch historical weather data for '' @ date @ ''.''), w')
               else (historical_report rt date data, w')))"

section \<open>Example inputs\<close>

text \<open>
  Parameters for the worked examples (no float or container is formatted in them), and a
  world in which every request ends in an error status.
\<close>

definition example_rt :: pyrt where
  "example_rt = \<lparr>float_str = (\<lambda>f. ''0.0''), float_fixed4 = (\<lambda>f. ''0.0000''),
     container_str = (\<lambda>v. ''[]''), bigint_fixed4 = (\<lambda>i. Inl OverflowError)\<rparr>"

definition failing_world :: world where
  "failing_world = \<lparr>net = (\<lambda>n url. StatusError), calls = []\<rparr>"



text \<open>Two answers to the alert request with the same snapshot and different hourly data.\<close>

definition hot_storm_world :: world where
  "hot_storm_world =
     \<lparr>net = (\<lambda>n url. Body (JObj [(''current'', JObj [(''temperature_2m'', JInt 36),
                (''wind_speed_10m'', JInt 10), (''weather_code'', JInt 95)]),
              (''hourly'', JObj [(''temperature_2m'', JList [JInt 1, JInt 2])])])),
      calls = []\<rparr>"

definition hot_storm_world' :: world where
  "hot_storm_world' =
     \<lparr>net = (\<lambda>n url. Body (JObj [(''hourly'', JObj [(''temperature_2m'', JList [JInt 40])]),
              (''current'', JObj [(''temperature_2m'', JInt 36),
                (''wind_speed_10m'', JInt 10), (''weather_code'', JInt 95)])])),
      calls = []\<rparr>"

section \<open>The alert rules as the specification lists them\<close>

text \<open>
  A snapshot maps metric names to numbers or to nothing. Each rule looks at the snapshot
  on its own: a threshold holds when the comparison is defined and true, and the fired
  alerts are the lines of the rules that hold, in the order of the list.
\<close>

definition metric :: "json \<Rightarrow> string \<Rightarrow> json" where
  "metric current k = (case dict_get current k JNull of Inr v \<Rightarrow> v | Inl e \<Rightarrow> JNull)"

definition at_least :: "json \<Rightarrow> int \<Rightarrow> bool" where
  "at_least v k = (py_ge v k = Inr True)"

definition at_most :: "json \<Rightarrow> int \<Rightarrow> bool" where
  "at_most v k = (py_le v k = Inr True)"

definition alert_rules :: "json \<Rightarrow> (bool \<times> string) list" where
  "alert_rules current =
     [(at_least (metric current ''temperature_2m'') 35, HEAT_WARNING),
      (at_most (metric current ''temperature_2m'') (- 20), COLD_WARNING),
      (at_least (metric current ''wind_speed_10m'') 60, WIND_WARNING),
      (at_least (metric current ''precipitation'') 20, PRECIPITATION_WARNING),
      (int_key (metric current ''weather_code'') \<in> {Some 95, Some 96, Some 99},
       THUNDERSTORM_WARNING)]"

definition fired_alerts :: "json \<Rightarrow> string list" where
  "fired_alerts current = map snd (filter fst (alert_rules current))"

fun numeric_or_absent :: "json \<Rightarrow> bool" where
  "numeric_or_absent JNull = True"
| "numeric_or_absent (JInt i) = True"
| "numeric_or_absent (JFloat f) = True"
| "numeric_or_absent (JBool b) = True"
| "numeric_or_absent _ = False"

fun is_dict :: "json \<Rightarrow> bool" where
  "is_dict (JObj kvs) = True"
| "is_dict _ = False"

definition snapshot :: "json \<Rightarrow> bool" where
  "snapshot current =
     (is_dict current
      \<and> numeric_or_absent (metric current ''temperature_2m'')
      \<and> numeric_or_absent (metric current ''wind_speed_10m'')
      \<and> numeric_or_absent (metric current ''precipitation''))"

text \<open>A geocoding answer with one match that has no latitude.\<close>

definition null_island_world :: world where
  "null_island_world =
     \<lparr>net = (\<lambda>n url. Body (JObj [(''results'',
                JList [JObj [(''name'', JStr ''Null Island''), (''longitude'', JInt 7)]])])),
      calls = []\<rparr>"

section \<open>Date texts as the specification describes them\<close>

text \<open>
  A number written with one, two or four decimal digits. A strict date text is
  \<^verbatim>\<open>YYYY-MM-DD\<close>: four, two and two digits that name a date of the calendar. A lenient
  date text may write the month and the day without the leading zero, and the day with
  a space in its place.
\<close>

definition number1 :: "nat \<Rightarrow> string \<Rightarrow> bool" where
  "number1 n t = (\<exists>a. t = [a] \<and> is_digit a \<and> n = digit_val a)"

definition number2 :: "nat \<Rightarrow> string \<Rightarrow> bool" where
  "number2 n t =
     (\<exists>a b. t = [a, b] \<and> is_digit a \<and> is_digit b \<and> n = 10 * digit_val a + digit_val b)"

definition number4 :: "nat \<Rightarrow> string \<Rightarrow> bool" where
  "number4 n t =
     (\<exists>a b c d. t = [a, b, c, d] \<and> is_digit a \<and> is_digit b \<and> is_digit c \<and> is_digit d
        \<and> n = 1000 * digit_val a + 100 * digit_val b + 10 * digit_val c + digit_val d)"

definition strict_ymd_of :: "string \<Rightarrow> date \<Rightarrow> bool" where
  "strict_ymd_of s dt =
     (case dt of (y, m, d) \<Rightarrow>
        valid_date (y, m, d)
        \<and> (\<exists>ys ms ds. s = ys @ ''-'' @ ms @ ''-'' @ ds
              \<and> number4 y ys \<and> number2 m ms \<and> number2 d ds))"

definition lenient_ymd_of :: "string \<Rightarrow> date \<Rightarrow> bool" where
  "lenient_ymd_of s dt =
     (case dt of (y, m, d) \<Rightarrow>
        valid_date (y, m, d)
        \<and> (\<exists>ys ms ds. s = ys @ ''-'' @ ms @ ''-'' @ ds
              \<and> number4 y ys \<and> (number2 m ms \<or> number1 m ms)
              \<and> (number2 d ds \<or> number1 d ds \<or> (\<exists>t. ds = CHR '' '' # t \<and> number1 d t))))"

definition strict_ymd :: "string \<Rightarrow> bool" where
  "strict_ymd s = (\<exists>dt. strict_ymd_of s dt)"

definition lenient_ymd :: "string \<Rightarrow> bool" where
  "lenient_ymd s = (\<exists>dt. lenient_ymd_of s dt)"

definition ascii :: "string \<Rightarrow> bool" where
  "ascii s = (\<forall>c \<in> set s. (of_char c :: nat) < 128)"

section \<open>Properties\<close>

subsection \<open>The fetcher and the request log\<close>

lemma make_openmeteo_request_eq:
  "make_openmeteo_request url w =
     (try_json (net w (length (calls w)) url), w\<lparr>calls := calls w @ [url]\<rparr>)"
  by (simp add: make_openmeteo_request_def client_get_def)

subsection \<open>Forecast horizon\<close>

text \<open>
  C9: for every integer \<open>days\<close>, \<open>get_weather_forecast\<close> clamps it into \<open>[1, 16]\<close>
  before it builds the request: 0 becomes 1, 30 becomes 16, 5 stays 5, a value already
  in range is unchanged; the tool behaves as on the clamped value, and the one URL it
  requests carries the clamped value.
\<close>

theorem forecast_days_clamped:
  "1 \<le> clamp_days days \<and> clamp_days days \<le> 16
   \<and> clamp_days 0 = 1 \<and> clamp_days 30 = 16 \<and> clamp_days 5 = 5
   \<and> (1 \<le> days \<and> days \<le> 16 \<longrightarrow> clamp_days days = days)
   \<and> get_weather_forecast rt latitude longitude days w
       = get_weather_forecast rt latitude longitude (clamp_days days) w
   \<and> calls (snd (get_weather_forecast rt latitude longitude days w))
       = calls w @ [forecast_url rt latitude longitude (clamp_days days)]"
proof -
  have idem: "clamp_days (clamp_days days) = clamp_days days"
    by (simp add: clamp_days_def)
  have "calls (snd (get_weather_forecast rt latitude longitude days w))
       = calls w @ [forecast_url rt latitude longitude (clamp_days days)]"
    by (simp add: get_weather_forecast_def make_openmeteo_request_eq Let_def)
  then show ?thesis
    by (simp add: get_weather_forecast_def idem) (simp add: clamp_days_def)
qed

theorem forecast_days_clamped_witness:
  "(1::int) \<le> 7 \<and> (7::int) \<le> 16 \<and> clamp_days 7 = 7"
  using forecast_days_clamped [where days = 7] by simp

subsection \<open>Faults on short per-field arrays\<close>

text \<open>
  C1: the archive answers a past date with a \<^verbatim>\<open>time\<close> list of one entry and an empty
  \<^verbatim>\<open>weather_code\<close> list. \<open>get_historical_weather\<close> indexes the empty list and leaves
  with an IndexError instead of a text; \<open>get_weather_forecast\<close>, which checks the
  length first, renders the same answer with its placeholders.
\<close>

theorem historical_empty_field_faults:
  "fst (get_historical_weather rt (2026, 11, 4) latitude longitude ''2020-01-01''
         \<lparr>net = (\<lambda>n url. Body (JObj [(''daily'',
                   JObj [(''time'', JList [JStr ''2020-01-01'']),
                         (''weather_code'', JList [])])])),
          calls = []\<rparr>)
     = Inl IndexError
   \<and> fst (get_weather_forecast rt latitude longitude 1
         \<lparr>net = (\<lambda>n url. Body (JObj [(''daily'',
                   JObj [(''time'', JList [JStr ''2020-01-01'']),
                         (''weather_code'', JList [])])])),
          calls = []\<rparr>)
     = Inr (''Weather Forecast for 1 days:'' @ nl @ ''2020-01-01: Unknown, N/A'' @ deg
            @ ''C - N/A'' @ deg @ ''C, Rain: N/Amm, Wind: N/Akm/h'')"
  by code_simp

subsection \<open>Weather code descriptions\<close>

lemma weather_codes_get_int:
  "weather_codes_get (JInt i) =
     Inr (case map_of WEATHER_CODES i of None \<Rightarrow> ''Unknown'' | Some d \<Rightarrow> d)"
  by simp

lemma weather_desc_guarded_nonzero:
  "i \<noteq> 0 \<Longrightarrow> weather_desc_guarded (JInt i) =
     Inr (case map_of WEATHER_CODES i of None \<Rightarrow> ''Unknown'' | Some d \<Rightarrow> d)"
  by (simp add: weather_desc_guarded_def)

lemma unknown_code_999: "weather_desc_guarded (JInt 999) = Inr ''Unknown'' \<and> weather_codes_get (JInt 999) = Inr ''Unknown''"
  by code_simp

text \<open>
  C2: code 0 is in the table as \<^verbatim>\<open>Clear sky\<close>, and \<open>get_current_weather\<close> renders it
  so. The three formatters that test the code for truth before the lookup
  (\<open>get_weather_by_city\<close>, \<open>get_weather_forecast\<close>, \<open>get_historical_weather\<close>) render
  \<^verbatim>\<open>Unknown\<close> for it, since 0 is false.
\<close>

theorem clear_sky_rendered_unknown:
  "map_of WEATHER_CODES 0 = Some ''Clear sky''
   \<and> fst (get_current_weather rt latitude longitude
        \<lparr>net = (\<lambda>n url. Body (JObj [(''current'', JObj [(''weather_code'', JInt 0)])])),
         calls = []\<rparr>)
      = Inr (''Current Weather:'' @ nl @ ''Temperature: N/A'' @ deg @ ''C'' @ nl
             @ ''Feels like: N/A'' @ deg @ ''C'' @ nl @ ''Humidity: N/A%'' @ nl
             @ ''Wind Speed: N/A km/h'' @ nl @ ''Wind Direction: N/A'' @ deg @ nl
             @ ''Pressure: N/A hPa'' @ nl @ ''Cloud Cover: N/A%'' @ nl
             @ ''Precipitation: N/A mm'' @ nl @ ''Rain: N/A mm'' @ nl @ ''Snow: N/A mm'' @ nl
             @ ''Weather: Clear sky'')
   \<and> fst (get_weather_by_city rt ''Oslo''
        \<lparr>net = (\<lambda>n url. if n = 0
                  then Body (JObj [(''results'', JList [JObj [(''name'', JStr ''Oslo''),
                          (''country'', JStr ''Norway''), (''latitude'', JInt 60),
                          (''longitude'', JInt 11)]])])
                  else Body (JObj [(''current'', JObj [(''weather_code'', JInt 0)])])),
         calls = []\<rparr>)
      = Inr (''Weather in Oslo, Norway:'' @ nl @ ''Weather: Unknown'' @ nl
             @ ''Temperature: N/A'' @ deg @ ''C'' @ nl
             @ ''Feels like: N/A'' @ deg @ ''C'' @ nl @ ''Humidity: N/A%'' @ nl
             @ ''Wind Speed: N/A km/h'' @ nl @ ''Wind Direction: N/A'' @ deg @ nl
             @ ''Pressure: N/A hPa'' @ nl @ ''Cloud Cover: N/A%'' @ nl
             @ ''Precipitation: N/A mm'')
   \<and> fst (get_weather_forecast rt latitude longitude 1
        \<lparr>net = (\<lambda>n url. Body (JObj [(''daily'', JObj [(''time'', JList [JStr ''2020-01-01'']),
                                       (''weather_code'', JList [JInt 0])])])),
         calls = []\<rparr>)
      = Inr (''Weather Forecast for 1 days:'' @ nl @ ''2020-01-01: Unknown, N/A'' @ deg
             @ ''C - N/A'' @ deg @ ''C, Rain: N/Amm, Wind: N/Akm/h'')
   \<and> fst (get_historical_weather rt (2026, 11, 4) latitude longitude ''2020-01-01''
        \<lparr>net = (\<lambda>n url. Body (JObj [(''daily'', JObj [(''time'', JList [JStr ''2020-01-01'']),
                                       (''weather_code'', JList [JInt 0])])])),
         calls = []\<rparr>)
      = Inr (''Historical Weather for 2020-01-01:'' @ nl @ ''Weather: Unknown'' @ nl
             @ ''Temperature: N/A'' @ deg @ ''C - N/A'' @ deg @ ''C'' @ nl
             @ ''Precipitation: N/A mm'' @ nl @ ''Max Wind Speed: N/A km/h'')"
  by code_simp

subsection \<open>Substrings\<close>

lemma starts_with_iff: "starts_with m s \<longleftrightarrow> (\<exists>r. s = m @ r)"
  by (induction m s rule: starts_with.induct) auto

lemma isin_iff: "isin m s \<longleftrightarrow> (\<exists>a b. s = a @ m @ b)"
proof (induction s)
  case Nil
  then show ?case by auto
next
  case (Cons c cs)
  show ?case
  proof
    assume "isin m (c # cs)"
    then consider "starts_with m (c # cs)" | "isin m cs" by auto
    then show "\<exists>a b. c # cs = a @ m @ b"
    proof cases
      case 1
      then obtain r where "c # cs = m @ r" using starts_with_iff by blast
      then have "c # cs = [] @ m @ r" by simp
      then show ?thesis by blast
    next
      case 2
      then obtain a b where "cs = a @ m @ b" using Cons.IH by blast
      then have "c # cs = (c # a) @ m @ b" by simp
      then show ?thesis by blast
    qed
  next
    assume "\<exists>a b. c # cs = a @ m @ b"
    then obtain a b where ab: "c # cs = a @ m @ b" by blast
    show "isin m (c # cs)"
    proof (cases a)
      case Nil
      with ab have "starts_with m (c # cs)" using starts_with_iff by auto
      then show ?thesis by simp
    next
      case (Cons x a')
      with ab have "cs = a' @ m @ b" by simp
      then have "isin m cs" using Cons.IH by blast
      then show ?thesis by simp
    qed
  qed
qed



subsection \<open>Absence of a response\<close>




subsection \<open>City comparison\<close>




subsection \<open>Alerts\<close>

lemma heat_cold_exclusive: "\<not> (at_least t 35 \<and> at_most t (- 20))"
proof (cases t)
  case (JFloat f)
  then show ?thesis by (cases f) (auto simp: at_least_def at_most_def)
qed (auto simp: at_least_def at_most_def)

lemma temp_alerts_rules:
  "numeric_or_absent t \<Longrightarrow>
   temp_alerts t = Inr (map snd (filter fst [(at_least t 35, HEAT_WARNING),
                                            (at_most t (- 20), COLD_WARNING)]))"
proof (cases t)
  case (JFloat f)
  then show ?thesis by (cases f) (auto simp: temp_alerts_def at_least_def at_most_def)
qed (auto simp: temp_alerts_def at_least_def at_most_def)

lemma threshold_alert_rules:
  "numeric_or_absent v \<Longrightarrow>
   threshold_alert v k line = Inr (map snd (filter fst [(at_least v k, line)]))"
  by (cases v) (auto simp: threshold_alert_def at_least_def)

lemma current_alerts_rules:
  assumes "snapshot current"
  shows "current_alerts current = Inr (fired_alerts current)"
proof -
  from assms obtain kvs where c: "current = JObj kvs"
    by (cases current) (auto simp: snapshot_def)
  have g: "dict_get current k JNull = Inr (metric current k)" for k
    by (simp add: c metric_def)
  from assms have n: "numeric_or_absent (metric current ''temperature_2m'')"
    "numeric_or_absent (metric current ''wind_speed_10m'')"
    "numeric_or_absent (metric current ''precipitation'')"
    by (simp_all add: snapshot_def)
  show ?thesis
    unfolding current_alerts_def g rbind.simps
      temp_alerts_rules [OF n(1)] threshold_alert_rules [OF n(2)]
      threshold_alert_rules [OF n(3)]
    by (simp add: fired_alerts_def alert_rules_def storm_alerts_def)
qed

lemma alerts_text_none: "alerts_text xs = NO_ALERTS \<longleftrightarrow> xs = []"
  by (simp add: alerts_text_def NO_ALERTS_def)

text \<open>
  C7: on a snapshot whose temperature, wind speed and precipitation are numbers or
  absent, \<open>get_weather_alerts\<close> produces the lines of exactly the rules that hold, each
  rule judged on its own: temperature at least 35 (heat), temperature at most \<open>-20\<close>
  (cold; never together with heat), wind speed at least 60, precipitation at least 20,
  weather code among 95, 96, 99. The text is the fixed no-alerts message exactly when no
  rule holds, and otherwise the heading followed by the fired lines joined by newlines.
\<close>

theorem alert_rules_independent:
  "snapshot current \<Longrightarrow>
   current_alerts current = Inr (fired_alerts current)
   \<and> \<not> (at_least (metric current ''temperature_2m'') 35
         \<and> at_most (metric current ''temperature_2m'') (- 20))
   \<and> (alerts_text (fired_alerts current) = NO_ALERTS
        \<longleftrightarrow> (\<forall>r \<in> set (alert_rules current). \<not> fst r))
   \<and> (fired_alerts current \<noteq> [] \<longrightarrow>
        alerts_text (fired_alerts current)
          = ''Weather Alerts:'' @ nl @ join nl (fired_alerts current))
   \<and> (truthy data \<and> dict_get data ''current'' (JObj []) = Inr current
        \<and> fst (make_openmeteo_request (alerts_url rt latitude longitude) w) = data \<longrightarrow>
        fst (get_weather_alerts rt latitude longitude w)
          = Inr (alerts_text (fired_alerts current)))"
proof -
  assume s: "snapshot current"
  have 1: "current_alerts current = Inr (fired_alerts current)"
    using s by (rule current_alerts_rules)
  have 3: "alerts_text (fired_alerts current) = NO_ALERTS
        \<longleftrightarrow> (\<forall>r \<in> set (alert_rules current). \<not> fst r)"
    unfolding alerts_text_none fired_alerts_def by (auto simp: filter_empty_conv)
  have 4: "fired_alerts current \<noteq> [] \<longrightarrow>
        alerts_text (fired_alerts current)
          = ''Weather Alerts:'' @ nl @ join nl (fired_alerts current)"
    by (simp add: alerts_text_def)
  have 5: "truthy data \<and> dict_get data ''current'' (JObj []) = Inr current
        \<and> fst (make_openmeteo_request (alerts_url rt latitude longitude) w) = data \<longrightarrow>
        fst (get_weather_alerts rt latitude longitude w)
          = Inr (alerts_text (fired_alerts current))"
    using 1 by (auto simp: get_weather_alerts_def make_openmeteo_request_eq)
  from 1 heat_cold_exclusive 3 4 5 show ?thesis by blast
qed

theorem alert_rules_independent_witness:
  "snapshot (JObj [(''temperature_2m'', JInt 36), (''wind_speed_10m'', JInt 10),
                   (''weather_code'', JInt 95)])
   \<and> fst (get_weather_alerts example_rt (Finite 60) (Finite 11) hot_storm_world)
       = Inr (''Weather Alerts:'' @ nl @ HEAT_WARNING @ nl @ THUNDERSTORM_WARNING)"
proof -
  let ?c = "JObj [(''temperature_2m'', JInt 36), (''wind_speed_10m'', JInt 10),
                   (''weather_code'', JInt 95)]"
  let ?d = "JObj [(''current'', ?c),
              (''hourly'', JObj [(''temperature_2m'', JList [JInt 1, JInt 2])])]"
  have s: "snapshot ?c" by code_simp
  have f: "fired_alerts ?c = [HEAT_WARNING, THUNDERSTORM_WARNING]" by code_simp
  have d: "truthy ?d" "dict_get ?d ''current'' (JObj []) = Inr ?c"
    "fst (make_openmeteo_request (alerts_url example_rt (Finite 60) (Finite 11)) hot_storm_world)
       = ?d"
    by code_simp+
  from alert_rules_independent [OF s, where data = ?d and rt = example_rt
      and latitude = "Finite 60" and longitude = "Finite 11" and w = hot_storm_world] d
  have "fst (get_weather_alerts example_rt (Finite 60) (Finite 11) hot_storm_world)
        = Inr (alerts_text (fired_alerts ?c))"
    by blast
  then show ?thesis using s by (simp add: f alerts_text_def)
qed

text \<open>
  C8: two answers to the alert request that are objects with the same \<^verbatim>\<open>current\<close>
  entry, each with some \<^verbatim>\<open>hourly\<close> entry of any content, give the same result.
\<close>

theorem alerts_ignore_hourly:
  "map_of kvs_a ''current'' = map_of kvs_b ''current'' \<Longrightarrow>
   map_of kvs_a ''hourly'' = Some hourly_a \<Longrightarrow>
   map_of kvs_b ''hourly'' = Some hourly_b \<Longrightarrow>
   fst (make_openmeteo_request (alerts_url rt latitude longitude) w_a) = JObj kvs_a \<Longrightarrow>
   fst (make_openmeteo_request (alerts_url rt latitude longitude) w_b) = JObj kvs_b \<Longrightarrow>
   fst (get_weather_alerts rt latitude longitude w_a)
     = fst (get_weather_alerts rt latitude longitude w_b)"
proof -
  assume c: "map_of kvs_a ''current'' = map_of kvs_b ''current''"
    and ha: "map_of kvs_a ''hourly'' = Some hourly_a"
    and hb: "map_of kvs_b ''hourly'' = Some hourly_b"
    and a: "fst (make_openmeteo_request (alerts_url rt latitude longitude) w_a) = JObj kvs_a"
    and b: "fst (make_openmeteo_request (alerts_url rt latitude longitude) w_b) = JObj kvs_b"
  from ha hb have ne: "kvs_a \<noteq> []" "kvs_b \<noteq> []" by auto
  have r: "fst (make_openmeteo_request (alerts_url rt latitude longitude) v) = JObj kvs \<Longrightarrow>
           kvs \<noteq> [] \<Longrightarrow>
           fst (get_weather_alerts rt latitude longitude v)
             = rbind (dict_get (JObj kvs) ''current'' (JObj [])) (\<lambda>current.
               rbind (current_alerts current) (\<lambda>alerts. Inr (alerts_text alerts)))" for v kvs
    by (auto simp: get_weather_alerts_def make_openmeteo_request_eq)
  show ?thesis
    unfolding r [OF a ne(1)] r [OF b ne(2)] using c by simp
qed

theorem alerts_ignore_hourly_witness:
  "fst (get_weather_alerts example_rt (Finite 60) (Finite 11) hot_storm_world)
     = fst (get_weather_alerts example_rt (Finite 60) (Finite 11) hot_storm_world')"
proof -
  let ?c = "JObj [(''temperature_2m'', JInt 36), (''wind_speed_10m'', JInt 10),
                   (''weather_code'', JInt 95)]"
  let ?a = "[(''current'', ?c),
              (''hourly'', JObj [(''temperature_2m'', JList [JInt 1, JInt 2])])]"
  let ?b = "[(''hourly'', JObj [(''temperature_2m'', JList [JInt 40])]), (''current'', ?c)]"
  have 1: "map_of ?a ''current'' = map_of ?b ''current''" by code_simp
  have 2: "map_of ?a ''hourly'' = Some (JObj [(''temperature_2m'', JList [JInt 1, JInt 2])])"
    by code_simp
  have 3: "map_of ?b ''hourly'' = Some (JObj [(''temperature_2m'', JList [JInt 40])])"
    by code_simp
  have 4: "fst (make_openmeteo_request (alerts_url example_rt (Finite 60) (Finite 11))
                 hot_storm_world) = JObj ?a"
    by code_simp
  have 5: "fst (make_openmeteo_request (alerts_url example_rt (Finite 60) (Finite 11))
                 hot_storm_world') = JObj ?b"
    by code_simp
  show ?thesis by (rule alerts_ignore_hourly [OF 1 2 3 4 5])
qed

subsection \<open>Missing coordinates of a match\<close>

lemma dict_get_default_added:
  "map_of kvs k = None \<Longrightarrow>
   dict_get (JObj (kvs @ [(k, d)])) k' d' = dict_get (JObj kvs) k' (if k' = k then d else d')"
  by (auto simp: map_add_def split: option.splits)

lemma rbind_Inr_iff: "rbind m f = Inr y \<longleftrightarrow> (\<exists>x. m = Inr x \<and> f x = Inr y)"
  by (cases m) auto

lemma zero_int_fixed4: "int_fixed4 rt 0 = Inr ''0.0000''"
  by (simp add: int_fixed4_def str_int_def str_nat.simps)

lemma location_str_Inr:
  assumes "location_str rt (JObj kvs) = Inr line"
  shows "\<exists>p lat_s lon_s.
           format_fixed4 rt (case map_of kvs ''latitude'' of None \<Rightarrow> JInt 0 | Some v \<Rightarrow> v)
             = Inr lat_s
         \<and> format_fixed4 rt (case map_of kvs ''longitude'' of None \<Rightarrow> JInt 0 | Some v \<Rightarrow> v)
             = Inr lon_s
         \<and> line = p @ ''(Lat: '' @ lat_s @ '', Lon: '' @ lon_s @ '')''"
proof -
  define p where "p =
     py_format rt (case map_of kvs ''name'' of None \<Rightarrow> JStr ''Unknown'' | Some v \<Rightarrow> v)
     @ (if truthy (case map_of kvs ''admin1'' of None \<Rightarrow> JStr [] | Some v \<Rightarrow> v)
        then '', '' @ py_format rt (case map_of kvs ''admin1'' of None \<Rightarrow> JStr [] | Some v \<Rightarrow> v)
        else [])
     @ '', ''
     @ py_format rt (case map_of kvs ''country'' of None \<Rightarrow> JStr ''Unknown'' | Some v \<Rightarrow> v)
     @ '' ''"
  from assms obtain lat_s lon_s where
    "format_fixed4 rt (case map_of kvs ''latitude'' of None \<Rightarrow> JInt 0 | Some v \<Rightarrow> v)
       = Inr lat_s"
    "format_fixed4 rt (case map_of kvs ''longitude'' of None \<Rightarrow> JInt 0 | Some v \<Rightarrow> v)
       = Inr lon_s"
    "line = p @ ''(Lat: '' @ lat_s @ '', Lon: '' @ lon_s @ '')''"
    unfolding p_def by (auto simp: location_str_def rbind_Inr_iff)
  then show ?thesis by blast
qed

text \<open>
  C10: \<open>search_locations\<close> renders every match of a non-empty result list with the loop
  body \<open>location_str\<close>. For a match without a latitude (or longitude) the loop body
  gives the very result it gives for the same match with that coordinate set to the
  integer 0; the default is formatted as \<^verbatim>\<open>0.0000\<close>, and a line that is produced
  contains \<^verbatim>\<open>(Lat: 0.0000, Lon: \<close> (or \<^verbatim>\<open>, Lon: 0.0000)\<close>).
\<close>

theorem missing_coordinate_renders_zero:
  "format_fixed4 rt (JInt 0) = Inr ''0.0000''
   \<and> (map_of kvs ''latitude'' = None \<longrightarrow>
        location_str rt (JObj kvs) = location_str rt (JObj (kvs @ [(''latitude'', JInt 0)]))
        \<and> (\<forall>line. location_str rt (JObj kvs) = Inr line \<longrightarrow>
              isin ''(Lat: 0.0000, Lon: '' line))
   \<and> (map_of kvs ''longitude'' = None \<longrightarrow>
        location_str rt (JObj kvs) = location_str rt (JObj (kvs @ [(''longitude'', JInt 0)]))
        \<and> (\<forall>line. location_str rt (JObj kvs) = Inr line \<longrightarrow>
              isin '', Lon: 0.0000)'' line))
   \<and> (fst (make_openmeteo_request (search_locations_url query) w) = JObj answer
        \<and> map_of answer ''results'' = Some (JList matches) \<and> matches \<noteq> [] \<longrightarrow>
        fst (search_locations rt query w)
          = rbind (sequence_res (map (location_str rt) matches))
              (\<lambda>locations. Inr (''Found locations:'' @ nl @ join nl locations)))"
proof -
  have z: "format_fixed4 rt (JInt 0) = Inr ''0.0000''"
    by (simp add: zero_int_fixed4)
  have same: "map_of kvs k = None \<Longrightarrow> k \<in> {''latitude'', ''longitude''} \<Longrightarrow>
        location_str rt (JObj kvs) = location_str rt (JObj (kvs @ [(k, JInt 0)]))" for k
  proof -
    assume n: "map_of kvs k = None" and k: "k \<in> {''latitude'', ''longitude''}"
    have g: "dict_get (JObj (kvs @ [(k, JInt 0)])) k' d'
             = dict_get (JObj kvs) k' (if k' = k then JInt 0 else d')" for k' d'
      using n by (rule dict_get_default_added)
    from k show ?thesis unfolding location_str_def g by auto
  qed
  have lat: "isin ''(Lat: 0.0000, Lon: '' line"
    if "map_of kvs ''latitude'' = None" "location_str rt (JObj kvs) = Inr line" for line
  proof -
    from location_str_Inr [OF that(2)] that(1) obtain p lon_s where
      "line = p @ ''(Lat: '' @ ''0.0000'' @ '', Lon: '' @ lon_s @ '')''"
      by (auto simp: zero_int_fixed4)
    then have "line = p @ ''(Lat: 0.0000, Lon: '' @ (lon_s @ '')'')" by simp
    then show ?thesis unfolding isin_iff by blast
  qed
  have lon: "isin '', Lon: 0.0000)'' line"
    if "map_of kvs ''longitude'' = None" "location_str rt (JObj kvs) = Inr line" for line
  proof -
    from location_str_Inr [OF that(2)] that(1) obtain p lat_s where
      "line = p @ ''(Lat: '' @ lat_s @ '', Lon: '' @ ''0.0000'' @ '')''"
      by (auto simp: zero_int_fixed4)
    then have "line = (p @ ''(Lat: '' @ lat_s) @ '', Lon: 0.0000)'' @ []" by simp
    then show ?thesis unfolding isin_iff by blast
  qed
  have tool: "fst (make_openmeteo_request (search_locations_url query) w) = JObj answer
        \<and> map_of answer ''results'' = Some (JList matches) \<and> matches \<noteq> [] \<longrightarrow>
        fst (search_locations rt query w)
          = rbind (sequence_res (map (location_str rt) matches))
              (\<lambda>locations. Inr (''Found locations:'' @ nl @ join nl locations))"
    by (auto simp: search_locations_def make_openmeteo_request_eq)
  from z same [of "''latitude''"] same [of "''longitude''"] lat lon tool
  show ?thesis by blast
qed

theorem missing_coordinate_renders_zero_witness:
  "map_of [(''name'', JStr ''Null Island''), (''longitude'', JInt 7)] ''latitude'' = None
   \<and> location_str example_rt (JObj [(''name'', JStr ''Null Island''), (''longitude'', JInt 7)])
       = Inr ''Null Island, Unknown (Lat: 0.0000, Lon: 7.0000)''
   \<and> location_str example_rt (JObj [(''name'', JStr ''Null Island''), (''longitude'', JInt 7),
                                     (''latitude'', JInt 0)])
       = Inr ''Null Island, Unknown (Lat: 0.0000, Lon: 7.0000)''
   \<and> isin ''(Lat: 0.0000, Lon: '' ''Null Island, Unknown (Lat: 0.0000, Lon: 7.0000)''
   \<and> map_of [(''name'', JStr ''Null Island''), (''latitude'', JInt 7)] ''longitude'' = None
   \<and> location_str example_rt (JObj [(''name'', JStr ''Null Island''), (''latitude'', JInt 7),
                                     (''longitude'', JInt 0)])
       = Inr ''Null Island, Unknown (Lat: 7.0000, Lon: 0.0000)''
   \<and> fst (search_locations example_rt ''Null'' null_island_world)
       = Inr (''Found locations:'' @ nl @ ''Null Island, Unknown (Lat: 0.0000, Lon: 7.0000)'')"
proof -
  let ?k = "[(''name'', JStr ''Null Island''), (''longitude'', JInt 7)]"
  let ?k' = "[(''name'', JStr ''Null Island''), (''latitude'', JInt 7)]"
  have m: "map_of ?k ''latitude'' = None" by code_simp
  have m': "map_of ?k' ''longitude'' = None" by code_simp
  have l: "location_str example_rt (JObj ?k)
            = Inr ''Null Island, Unknown (Lat: 0.0000, Lon: 7.0000)''"
    by code_simp
  have l': "location_str example_rt (JObj ?k')
            = Inr ''Null Island, Unknown (Lat: 7.0000, Lon: 0.0000)''"
    by code_simp
  have a: "fst (make_openmeteo_request (search_locations_url ''Null'') null_island_world)
            = JObj [(''results'', JList [JObj ?k])]"
    by code_simp
  have r: "map_of [(''results'', JList [JObj ?k])] ''results'' = Some (JList [JObj ?k])"
    by code_simp
  note t = missing_coordinate_renders_zero
    [where rt = example_rt and kvs = ?k and query = "''Null''" and w = null_island_world
       and answer = "[(''results'', JList [JObj ?k])]" and matches = "[JObj ?k]"]
  note t' = missing_coordinate_renders_zero [where rt = example_rt and kvs = ?k']
  from t m l have 1: "location_str example_rt (JObj (?k @ [(''latitude'', JInt 0)]))
            = Inr ''Null Island, Unknown (Lat: 0.0000, Lon: 7.0000)''"
    by metis
  from t m l have 2: "isin ''(Lat: 0.0000, Lon: ''
                       ''Null Island, Unknown (Lat: 0.0000, Lon: 7.0000)''"
    by blast
  from t' m' l' have 3: "location_str example_rt (JObj (?k' @ [(''longitude'', JInt 0)]))
            = Inr ''Null Island, Unknown (Lat: 7.0000, Lon: 0.0000)''"
    by metis
  from t a r have "fst (search_locations example_rt ''Null'' null_island_world)
          = rbind (sequence_res (map (location_str example_rt) [JObj ?k]))
              (\<lambda>locations. Inr (''Found locations:'' @ nl @ join nl locations))"
    by blast
  then have 4: "fst (search_locations example_rt ''Null'' null_island_world)
       = Inr (''Found locations:'' @ nl @ ''Null Island, Unknown (Lat: 0.0000, Lon: 7.0000)'')"
    by (simp add: l)
  from m l 1 2 m' 3 4 show ?thesis by simp
qed

subsection \<open>Date validation\<close>

lemma digit_vals:
  "digit_val CHR ''0'' = 0" "digit_val CHR ''1'' = 1" "digit_val CHR ''2'' = 2"
  "digit_val CHR ''3'' = 3" "digit_val CHR ''4'' = 4" "digit_val CHR ''5'' = 5"
  "digit_val CHR ''6'' = 6" "digit_val CHR ''7'' = 7" "digit_val CHR ''8'' = 8"
  "digit_val CHR ''9'' = 9"
  by (simp_all add: digit_val_def)

lemma digit_all:
  assumes "is_digit c"
    and "P CHR ''0''" "P CHR ''1''" "P CHR ''2''" "P CHR ''3''" "P CHR ''4''"
    and "P CHR ''5''" "P CHR ''6''" "P CHR ''7''" "P CHR ''8''" "P CHR ''9''"
  shows "P c"
  using assms by (auto simp: is_digit_def)

lemma digit_set_facts:
  assumes "is_digit c"
  shows "c \<in> set ''012'' \<longleftrightarrow> digit_val c \<le> 2"
    and "c \<in> set ''01'' \<longleftrightarrow> digit_val c \<le> 1"
    and "c \<in> set ''12'' \<longleftrightarrow> 1 \<le> digit_val c \<and> digit_val c \<le> 2"
    and "c \<in> set ''123456789'' \<longleftrightarrow> 1 \<le> digit_val c"
    and "c \<in> set ''0123456789'' \<longleftrightarrow> True"
    and "c \<in> set ''0'' \<longleftrightarrow> digit_val c = 0"
    and "c \<in> set ''1'' \<longleftrightarrow> digit_val c = 1"
    and "c \<in> set ''3'' \<longleftrightarrow> digit_val c = 3"
    and "c \<in> set '' '' \<longleftrightarrow> False"
    and "c \<noteq> CHR ''-''"
    and "digit_val c < 10"
  by (rule digit_all [OF assms]; simp add: digit_vals)+


lemma year_alternatives_mem:
  "(y, r) \<in> set (year_alternatives s) \<Longrightarrow> \<exists>ys. s = ys @ r \<and> number4 y ys"
  by (auto simp: year_alternatives_def number4_def split: list.splits if_splits)

lemma dash_mem: "r' \<in> set (dash r) \<Longrightarrow> r = CHR ''-'' # r'"
  by (auto simp: dash_def split: list.splits if_splits)

lemma two_chars_mem:
  "(n, r) \<in> set (two_chars firsts seconds tens s) \<Longrightarrow>
   \<exists>a b. s = a # b # r \<and> a \<in> set firsts \<and> b \<in> set seconds
         \<and> n = tens * digit_val a + digit_val b"
  by (auto simp: two_chars_def split: list.splits if_splits)

lemma one_char_mem:
  "(n, r) \<in> set (one_char firsts s) \<Longrightarrow> \<exists>a. s = a # r \<and> a \<in> set firsts \<and> n = digit_val a"
  by (auto simp: one_char_def split: list.splits if_splits)

lemma month_alternatives_mem:
  assumes "(m, r) \<in> set (month_alternatives s)"
  shows "\<exists>ms. s = ms @ r \<and> (number2 m ms \<or> number1 m ms)"
proof -
  from assms consider
      "(m, r) \<in> set (two_chars ''1'' ''012'' 10 s)"
    | "(m, r) \<in> set (two_chars ''0'' ''123456789'' 10 s)"
    | "(m, r) \<in> set (one_char ''123456789'' s)"
    by (auto simp: month_alternatives_def)
  then show ?thesis
  proof cases
    case 1
    from two_chars_mem [OF 1] obtain a b where
      "s = [a, b] @ r" "is_digit a" "is_digit b" "m = 10 * digit_val a + digit_val b"
      by (auto simp: is_digit_def)
    then show ?thesis unfolding number2_def by blast
  next
    case 2
    from two_chars_mem [OF 2] obtain a b where
      "s = [a, b] @ r" "is_digit a" "is_digit b" "m = 10 * digit_val a + digit_val b"
      by (auto simp: is_digit_def)
    then show ?thesis unfolding number2_def by blast
  next
    case 3
    from one_char_mem [OF 3] obtain a where "s = [a] @ r" "is_digit a" "m = digit_val a"
      by (auto simp: is_digit_def)
    then show ?thesis unfolding number1_def by blast
  qed
qed

lemma day_alternatives_mem:
  assumes "(d, r) \<in> set (day_alternatives s)"
  shows "\<exists>ds. s = ds @ r
           \<and> (number2 d ds \<or> number1 d ds \<or> (\<exists>t. ds = CHR '' '' # t \<and> number1 d t))"
proof -
  from assms consider
      "(d, r) \<in> set (two_chars ''3'' ''01'' 10 s)"
    | "(d, r) \<in> set (two_chars ''12'' ''0123456789'' 10 s)"
    | "(d, r) \<in> set (two_chars ''0'' ''123456789'' 10 s)"
    | "(d, r) \<in> set (one_char ''123456789'' s)"
    | "(d, r) \<in> set (two_chars '' '' ''123456789'' 0 s)"
    by (auto simp: day_alternatives_def)
  then show ?thesis
  proof cases
    case 1
    from two_chars_mem [OF 1] obtain a b where
      "s = [a, b] @ r" "is_digit a" "is_digit b" "d = 10 * digit_val a + digit_val b"
      by (auto simp: is_digit_def)
    then show ?thesis unfolding number2_def by blast
  next
    case 2
    from two_chars_mem [OF 2] obtain a b where
      "s = [a, b] @ r" "is_digit a" "is_digit b" "d = 10 * digit_val a + digit_val b"
      by (auto simp: is_digit_def)
    then show ?thesis unfolding number2_def by blast
  next
    case 3
    from two_chars_mem [OF 3] obtain a b where
      "s = [a, b] @ r" "is_digit a" "is_digit b" "d = 10 * digit_val a + digit_val b"
      by (auto simp: is_digit_def)
    then show ?thesis unfolding number2_def by blast
  next
    case 4
    from one_char_mem [OF 4] obtain a where "s = [a] @ r" "is_digit a" "d = digit_val a"
      by (auto simp: is_digit_def)
    then show ?thesis unfolding number1_def by blast
  next
    case 5
    from two_chars_mem [OF 5] obtain b where
      "s = (CHR '' '' # [b]) @ r" "is_digit b" "d = digit_val b"
      by (auto simp: is_digit_def)
    then show ?thesis unfolding number1_def by blast
  qed
qed

lemma ymd_matches_mem:
  assumes "((y, m, d), r) \<in> set (ymd_matches s)"
  shows "\<exists>ys ms ds. s = ys @ ''-'' @ ms @ ''-'' @ ds @ r
           \<and> number4 y ys \<and> (number2 m ms \<or> number1 m ms)
           \<and> (number2 d ds \<or> number1 d ds \<or> (\<exists>t. ds = CHR '' '' # t \<and> number1 d t))"
proof -
  from assms obtain r1 r2 r3 r4 where
    1: "(y, r1) \<in> set (year_alternatives s)" and 2: "r2 \<in> set (dash r1)"
    and 3: "(m, r3) \<in> set (month_alternatives r2)" and 4: "r4 \<in> set (dash r3)"
    and 5: "(d, r) \<in> set (day_alternatives r4)"
    by (auto simp: ymd_matches_def)
  from year_alternatives_mem [OF 1] obtain ys where ys: "s = ys @ r1" "number4 y ys" by blast
  from month_alternatives_mem [OF 3] obtain ms where
    ms: "r2 = ms @ r3" "number2 m ms \<or> number1 m ms" by blast
  from day_alternatives_mem [OF 5] obtain ds where
    ds: "r4 = ds @ r"
      "number2 d ds \<or> number1 d ds \<or> (\<exists>t. ds = CHR '' '' # t \<and> number1 d t)" by blast
  have "s = ys @ ''-'' @ ms @ ''-'' @ ds @ r"
    using ys(1) ms(1) ds(1) dash_mem [OF 2] dash_mem [OF 4] by simp
  with ys(2) ms(2) ds(2) show ?thesis by blast
qed

lemma strptime_ymd_Inr:
  assumes "strptime_ymd s = Inr dt"
  shows "lenient_ymd_of s dt"
proof -
  from assms obtain rest where m: "ymd_matches s = (dt, []) # rest" and v: "valid_date dt"
    by (auto simp: strptime_ymd_def split: list.splits if_splits)
  obtain y mo d where dt: "dt = (y, mo, d)" by (cases dt) auto
  from m have "((y, mo, d), []) \<in> set (ymd_matches s)" by (simp add: dt)
  from ymd_matches_mem [OF this] v show ?thesis
    by (auto simp: lenient_ymd_of_def dt)
qed

lemma strptime_ymd_cases: "strptime_ymd s = Inl ValueError \<or> (\<exists>dt. strptime_ymd s = Inr dt)"
  by (auto simp: strptime_ymd_def split: list.splits)


lemma two_chars_Cons:
  "two_chars firsts seconds tens (a # b # r) =
     (if a \<in> set firsts \<and> b \<in> set seconds then [(tens * digit_val a + digit_val b, r)]
      else [])"
  by (simp add: two_chars_def)

lemma one_char_Cons:
  "one_char firsts (a # r) = (if a \<in> set firsts then [(digit_val a, r)] else [])"
  by (simp add: one_char_def)

lemma dash_Cons: "dash (c # r) = (if c = CHR ''-'' then [r] else [])"
  by (simp add: dash_def)

lemma month_stage:
  assumes e: "is_digit e" and f: "is_digit f"
    and "1 \<le> 10 * digit_val e + digit_val f" "10 * digit_val e + digit_val f \<le> 12"
  shows "concat (map (\<lambda>(m, r3). concat (map (G m) (dash r3)))
                  (month_alternatives (e # f # CHR ''-'' # r)))
         = G (10 * digit_val e + digit_val f) r"
proof -
  have alts: "month_alternatives (e # f # CHR ''-'' # r) =
      (if digit_val e = 1 \<and> digit_val f \<le> 2
       then [(10 * digit_val e + digit_val f, CHR ''-'' # r)] else [])
      @ (if digit_val e = 0 \<and> 1 \<le> digit_val f
         then [(10 * digit_val e + digit_val f, CHR ''-'' # r)] else [])
      @ (if 1 \<le> digit_val e then [(digit_val e, f # CHR ''-'' # r)] else [])"
    unfolding month_alternatives_def two_chars_Cons one_char_Cons
      digit_set_facts [OF e] digit_set_facts [OF f] ..
  from assms(3,4) digit_set_facts(11) [OF f]
  consider "digit_val e = 0" "1 \<le> digit_val f" | "digit_val e = 1" "digit_val f \<le> 2"
    by fastforce
  then show ?thesis
    unfolding alts by cases (simp_all add: dash_Cons digit_set_facts(10) [OF f])
qed

lemma day_stage:
  assumes g: "is_digit g" and h: "is_digit h"
    and "1 \<le> 10 * digit_val g + digit_val h" "10 * digit_val g + digit_val h \<le> 31"
  shows "\<exists>rest. day_alternatives [g, h] = (10 * digit_val g + digit_val h, []) # rest"
proof -
  have alts: "day_alternatives [g, h] =
      (if digit_val g = 3 \<and> digit_val h \<le> 1
       then [(10 * digit_val g + digit_val h, [])] else [])
      @ (if (1 \<le> digit_val g \<and> digit_val g \<le> 2) \<and> True
         then [(10 * digit_val g + digit_val h, [])] else [])
      @ (if digit_val g = 0 \<and> 1 \<le> digit_val h
         then [(10 * digit_val g + digit_val h, [])] else [])
      @ (if 1 \<le> digit_val g then [(digit_val g, [h])] else [])
      @ (if False \<and> 1 \<le> digit_val h then [(0 * digit_val g + digit_val h, [])] else [])"
    unfolding day_alternatives_def two_chars_Cons one_char_Cons
      digit_set_facts [OF g] digit_set_facts [OF h] ..
  from assms(3,4) digit_set_facts(11) [OF h]
  consider "digit_val g = 0" "1 \<le> digit_val h"
    | "1 \<le> digit_val g" "digit_val g \<le> 2"
    | "digit_val g = 3" "digit_val h \<le> 1"
    by fastforce
  then show ?thesis
    unfolding alts by cases simp_all
qed


lemma days_in_month_le: "days_in_month y m \<le> 31"
  by (simp add: days_in_month_def)

lemma year_alternatives_digits:
  "is_digit a \<Longrightarrow> is_digit b \<Longrightarrow> is_digit c \<Longrightarrow> is_digit d \<Longrightarrow>
   year_alternatives (a # b # c # d # r)
     = [(1000 * digit_val a + 100 * digit_val b + 10 * digit_val c + digit_val d, r)]"
  by (simp add: year_alternatives_def)

lemma strict_accepted:
  assumes "strict_ymd_of s dt"
  shows "strptime_ymd s = Inr dt"
proof -
  obtain y m d where dt: "dt = (y, m, d)" by (cases dt) auto
  from assms obtain a b c d' e f g h where
    s: "s = a # b # c # d' # CHR ''-'' # e # f # CHR ''-'' # [g, h]"
    and dy: "is_digit a" "is_digit b" "is_digit c" "is_digit d'"
      "y = 1000 * digit_val a + 100 * digit_val b + 10 * digit_val c + digit_val d'"
    and dm: "is_digit e" "is_digit f" "m = 10 * digit_val e + digit_val f"
    and dd: "is_digit g" "is_digit h" "d = 10 * digit_val g + digit_val h"
    and v: "valid_date (y, m, d)"
    by (auto simp: strict_ymd_of_def dt number4_def number2_def)
  from v have rm: "1 \<le> m" "m \<le> 12" and rd: "1 \<le> d" "d \<le> 31"
    using days_in_month_le [of y m] by (auto simp: valid_date_def)
  from day_stage [OF dd(1,2)] rd dd(3) obtain rest where
    ds: "day_alternatives [g, h] = (d, []) # rest" by auto
  have ms: "concat (map (\<lambda>(m, r3). concat (map (G m) (dash r3)))
                  (month_alternatives (e # f # CHR ''-'' # r))) = G m r" for G r
    using month_stage [OF dm(1,2)] rm dm(3) by auto
  have "ymd_matches s = map (\<lambda>(d, r5). ((y, m, d), r5)) (day_alternatives [g, h])"
    unfolding ymd_matches_def s year_alternatives_digits [OF dy(1-4)] dy(5) [symmetric]
    by (simp add: dash_Cons ms)
  then have "ymd_matches s = ((y, m, d), []) # map (\<lambda>(d, r5). ((y, m, d), r5)) rest"
    by (simp add: ds)
  then show ?thesis using v by (simp add: strptime_ymd_def dt)
qed

lemma rbind_neq: "(\<And>x. f x \<noteq> Inr y) \<Longrightarrow> rbind m f \<noteq> Inr y"
  by (cases m) auto

lemma if_neq: "a \<noteq> y \<Longrightarrow> b \<noteq> y \<Longrightarrow> (if c then a else b) \<noteq> y"
  by simp

lemma historical_report_not_invalid:
  "historical_report rt date data \<noteq> Inr ''Invalid date format. Please use YYYY-MM-DD format.''"
  unfolding historical_report_def by (intro rbind_neq if_neq) simp_all

lemma strict_ymd_of_length: "strict_ymd_of s dt \<Longrightarrow> length s = 10"
  by (auto simp: strict_ymd_of_def number4_def number2_def)

lemma lenient_first_digit: "lenient_ymd_of s dt \<Longrightarrow> is_digit (hd s)"
  by (auto simp: lenient_ymd_of_def number4_def)

lemmas parse_defs = strptime_ymd_def ymd_matches_def year_alternatives_def
  month_alternatives_def day_alternatives_def two_chars_def one_char_def dash_def is_digit_def
  digit_vals valid_date_def days_in_month_def leap_year_def

text \<open>
  C6: for a date text that passes validation, \<open>get_historical_weather\<close> returns the
  fixed past-dates-only message and makes no request when the date is today (a date is
  never before itself) or later, and otherwise makes exactly the archive request.
\<close>

theorem past_dates_only:
  "strptime_ymd date = Inr request_date \<Longrightarrow>
   date_ge today today
   \<and> (date_ge request_date today \<longrightarrow>
        get_historical_weather rt today latitude longitude date w
          = (Inr ''Historical weather data is only available for past dates.'', w))
   \<and> (\<not> date_ge request_date today \<longrightarrow>
        calls (snd (get_historical_weather rt today latitude longitude date w))
          = calls w @ [archive_url rt latitude longitude date])"
  by (cases today)
     (simp add: get_historical_weather_def make_openmeteo_request_eq date_ge_def)

theorem past_dates_only_witness:
  "strptime_ymd ''2099-01-01'' = Inr (2099, 1, 1) \<and> date_ge (2099, 1, 1) (2026, 11, 4)
   \<and> get_historical_weather example_rt (2026, 11, 4) (Finite 60) (Finite 11) ''2099-01-01''
        failing_world
      = (Inr ''Historical weather data is only available for past dates.'', failing_world)
   \<and> strptime_ymd ''2026-11-04'' = Inr (2026, 11, 4)
   \<and> get_historical_weather example_rt (2026, 11, 4) (Finite 60) (Finite 11) ''2026-11-04''
        failing_world
      = (Inr ''Historical weather data is only available for past dates.'', failing_world)
   \<and> strptime_ymd ''2026-11-03'' = Inr (2026, 11, 3)
   \<and> \<not> date_ge (2026, 11, 3) (2026, 11, 4)
   \<and> calls (snd (get_historical_weather example_rt (2026, 11, 4) (Finite 60) (Finite 11)
                   ''2026-11-03'' failing_world))
      = calls failing_world @ [archive_url example_rt (Finite 60) (Finite 11) ''2026-11-03'']"
proof -
  have f: "strptime_ymd ''2099-01-01'' = Inr (2099, 1, 1)" by (simp add: parse_defs)
  have fg: "date_ge (2099, 1, 1) (2026, 11, 4)" by (simp add: date_ge_def)
  have e: "strptime_ymd ''2026-11-04'' = Inr (2026, 11, 4)" by (simp add: parse_defs)
  have p: "strptime_ymd ''2026-11-03'' = Inr (2026, 11, 3)" by (simp add: parse_defs)
  have pg: "\<not> date_ge (2026, 11, 3) (2026, 11, 4)" by (simp add: date_ge_def)
  note t = past_dates_only [where rt = example_rt and today = "(2026, 11, 4)"
      and latitude = "Finite 60" and longitude = "Finite 11" and w = failing_world]
  from t [OF f] fg t [OF e] t [OF p] pg f e p show ?thesis by blast
qed

text \<open>
  C5, as amended: validation is \<^verbatim>\<open>strptime\<close> with \<^verbatim>\<open>%Y-%m-%d\<close>. Whenever it raises
  ValueError, \<open>get_historical_weather\<close> returns the invalid-format message and makes no
  request; it raises on every ASCII text that is not a lenient date text (a calendar
  date whose month and day may lack the leading zero), and it accepts every strict
  \<^verbatim>\<open>YYYY-MM-DD\<close> text of a calendar date of the years 1 to 9999, for which the result
  is never the invalid-format message.
\<close>

theorem date_format_validation:
  "(strptime_ymd date = Inl ValueError \<longrightarrow>
      get_historical_weather rt today latitude longitude date w
        = (Inr ''Invalid date format. Please use YYYY-MM-DD format.'', w))
   \<and> (ascii date \<and> \<not> lenient_ymd date \<longrightarrow> strptime_ymd date = Inl ValueError)
   \<and> (strict_ymd_of date dt \<longrightarrow>
        strptime_ymd date = Inr dt
        \<and> fst (get_historical_weather rt today latitude longitude date w)
            \<noteq> Inr ''Invalid date format. Please use YYYY-MM-DD format.'')"
proof -
  have 1: "strptime_ymd date = Inl ValueError \<longrightarrow>
      get_historical_weather rt today latitude longitude date w
        = (Inr ''Invalid date format. Please use YYYY-MM-DD format.'', w)"
    by (simp add: get_historical_weather_def)
  have 2: "ascii date \<and> \<not> lenient_ymd date \<longrightarrow> strptime_ymd date = Inl ValueError"
    using strptime_ymd_cases [of date] strptime_ymd_Inr [of date]
    by (auto simp: lenient_ymd_def)
  have 3: "fst (get_historical_weather rt today latitude longitude date w)
            \<noteq> Inr ''Invalid date format. Please use YYYY-MM-DD format.''"
    if "strptime_ymd date = Inr dt"
    using that historical_report_not_invalid [of rt date]
    by (simp add: get_historical_weather_def make_openmeteo_request_eq)
  from 1 2 3 strict_accepted [of date dt] show ?thesis by blast
qed

theorem date_format_validation_witness:
  "strptime_ymd ''not-a-date'' = Inl ValueError
   \<and> ascii ''not-a-date'' \<and> \<not> lenient_ymd ''not-a-date''
   \<and> get_historical_weather example_rt (2026, 11, 4) (Finite 60) (Finite 11) ''not-a-date''
        failing_world
      = (Inr ''Invalid date format. Please use YYYY-MM-DD format.'', failing_world)
   \<and> strptime_ymd ''2023-02-30'' = Inl ValueError
   \<and> strict_ymd_of ''2020-03-05'' (2020, 3, 5)
   \<and> strptime_ymd ''2020-03-05'' = Inr (2020, 3, 5)
   \<and> fst (get_historical_weather example_rt (2026, 11, 4) (Finite 60) (Finite 11)
            ''2020-03-05'' failing_world)
      \<noteq> Inr ''Invalid date format. Please use YYYY-MM-DD format.''"
proof -
  have v: "strptime_ymd ''not-a-date'' = Inl ValueError" by (simp add: parse_defs)
  have v': "strptime_ymd ''2023-02-30'' = Inl ValueError" by (simp add: parse_defs)
  have a: "ascii ''not-a-date''" by code_simp
  have n: "\<not> lenient_ymd ''not-a-date''"
    using lenient_first_digit [of "''not-a-date''"] by (auto simp: lenient_ymd_def is_digit_def)
  have "valid_date (2020, 3, 5)"
    by (simp add: valid_date_def days_in_month_def)
  moreover have "number4 2020 ''2020''" "number2 3 ''03''" "number2 5 ''05''"
    by (simp_all add: number4_def number2_def is_digit_def digit_vals)
  moreover have "''2020-03-05'' = ''2020'' @ ''-'' @ ''03'' @ ''-'' @ ''05''" by simp
  ultimately have s: "strict_ymd_of ''2020-03-05'' (2020, 3, 5)"
    unfolding strict_ymd_of_def by blast
  note t = date_format_validation [where rt = example_rt and today = "(2026, 11, 4)"
      and latitude = "Finite 60" and longitude = "Finite 11" and w = failing_world]
  from t [where date = "''not-a-date''"] v
  have 1: "get_historical_weather example_rt (2026, 11, 4) (Finite 60) (Finite 11)
             ''not-a-date'' failing_world
           = (Inr ''Invalid date format. Please use YYYY-MM-DD format.'', failing_world)"
    by blast
  from t [where date = "''2020-03-05''" and dt = "(2020, 3, 5)"] s
  have 2: "strptime_ymd ''2020-03-05'' = Inr (2020, 3, 5)
     \<and> fst (get_historical_weather example_rt (2026, 11, 4) (Finite 60) (Finite 11)
            ''2020-03-05'' failing_world)
      \<noteq> Inr ''Invalid date format. Please use YYYY-MM-DD format.''"
    by blast
  from v a n 1 v' s 2 show ?thesis by blast
qed

text \<open>
  C5 as stated fails: \<^verbatim>\<open>2024-1-5\<close> is not a strict date text, yet validation accepts
  it, and the tool goes on to request the archive.
\<close>

theorem unpadded_date_accepted:
  "\<not> strict_ymd ''2024-1-5''
   \<and> get_historical_weather example_rt (2026, 11, 4) (Finite 60) (Finite 11) ''2024-1-5''
        failing_world
      \<noteq> (Inr ''Invalid date format. Please use YYYY-MM-DD format.'', failing_world)
   \<and> fst (get_historical_weather example_rt (2026, 11, 4) (Finite 60) (Finite 11) ''2024-1-5''
            failing_world)
      = Inr ''Unable to fetch historical weather data for 2024-1-5.''
   \<and> calls (snd (get_historical_weather example_rt (2026, 11, 4) (Finite 60) (Finite 11)
                   ''2024-1-5'' failing_world))
      = [archive_url example_rt (Finite 60) (Finite 11) ''2024-1-5'']"
proof -
  have 1: "\<not> strict_ymd ''2024-1-5''"
    using strict_ymd_of_length [of "''2024-1-5''"] by (auto simp: strict_ymd_def)
  have p: "strptime_ymd ''2024-1-5'' = Inr (2024, 1, 5)" by (simp add: parse_defs)
  have 2: "fst (get_historical_weather example_rt (2026, 11, 4) (Finite 60) (Finite 11)
                 ''2024-1-5'' failing_world)
      = Inr ''Unable to fetch historical weather data for 2024-1-5.''"
    by (simp add: get_historical_weather_def p date_ge_def make_openmeteo_request_eq
          failing_world_def)
  have 3: "calls (snd (get_historical_weather example_rt (2026, 11, 4) (Finite 60) (Finite 11)
                   ''2024-1-5'' failing_world))
      = [archive_url example_rt (Finite 60) (Finite 11) ''2024-1-5'']"
    by (simp add: get_historical_weather_def p date_ge_def make_openmeteo_request_eq
          failing_world_def)
  from 2 have 4: "get_historical_weather example_rt (2026, 11, 4) (Finite 60) (Finite 11)
        ''2024-1-5'' failing_world
      \<noteq> (Inr ''Invalid date format. Please use YYYY-MM-DD format.'', failing_world)"
    by auto
  from 1 2 3 4 show ?thesis by blast
qed

end
